theory Spec2Isabelle
  imports Complex_Main "HOL-Library.Word"
begin

section \<open>HubSpace authentication: a shallow embedding of \<^verbatim>\<open>hubspace_async/auth.py\<close>\<close>

text \<open>
  The module logs in to an OpenID provider by scraping its login page, trades the
  authorization code for a refresh token and the refresh token for a short-lived bearer
  token, and caches both. Everything outside the module is explicit here:
  \<^item> the HTTP client, the wall clock and \<^verbatim>\<open>os.urandom\<close> act on a world \<open>'w\<close> that the
    model threads through every call, together with the list of requests sent so far;
  \<^item> the library functions the module calls (\<^verbatim>\<open>hashlib.sha256\<close>, \<^verbatim>\<open>BeautifulSoup.find\<close>,
    \<^verbatim>\<open>urlparse\<close>, \<^verbatim>\<open>parse_qs\<close>) and the user agent constant of \<^verbatim>\<open>const.py\<close> are fields of
    the environment record;
  \<^item> every \<^verbatim>\<open>raise\<close> is an \<open>Inl\<close> result, also the exceptions that the libraries raise
    and the module does not catch;
  \<^item> what \<^verbatim>\<open>response.json()\<close> returns is any JSON value, and the module stores and passes
    on the values of the fields it reads as they are (\<^verbatim>\<open>null\<close> is Python's \<^verbatim>\<open>None\<close>);
  \<^item> logging is left out;
  \<^item> timestamps are real numbers (Python's floats, without rounding);
  \<^item> \<^verbatim>\<open>async with self._async_lock\<close> encloses the whole body of \<^verbatim>\<open>token\<close>: one call is
    one atomic step of the model, calls do not interleave.
\<close>

subsection \<open>Constants\<close>

definition HUBSPACE_OPENID_URL :: string where
  "HUBSPACE_OPENID_URL =
     ''https://accounts.hubspaceconnect.com/auth/realms/thd/protocol/openid-connect/auth''"

definition HUBSPACE_DEFAULT_CLIENT_ID :: string where
  "HUBSPACE_DEFAULT_CLIENT_ID = ''hubspace_android''"

definition HUBSPACE_DEFAULT_REDIRECT_URI :: string where
  "HUBSPACE_DEFAULT_REDIRECT_URI = ''hubspace-app://loginredirect''"

definition HUBSPACE_CODE_URL :: string where
  "HUBSPACE_CODE_URL =
     ''https://accounts.hubspaceconnect.com/auth/realms/thd/login-actions/authenticate''"

definition HUBSPACE_TOKEN_URL :: string where
  "HUBSPACE_TOKEN_URL =
     ''https://accounts.hubspaceconnect.com/auth/realms/thd/protocol/openid-connect/token''"

definition TOKEN_TIMEOUT :: real where
  "TOKEN_TIMEOUT = 118"

subsection \<open>Data\<close>

type_synonym byte = "8 word"

datatype error =
    InvalidAuth
  | InvalidResponse
  | KeyError
  | IndexError
  | TypeError
  | ValueError              \<comment> \<open>\<^verbatim>\<open>urlparse\<close> on a malformed URL\<close>
  | AttributeError
  | ParserRejectedMarkup    \<comment> \<open>BeautifulSoup on markup its parser refuses\<close>
  | ClientResponseError     \<comment> \<open>\<^verbatim>\<open>response.raise_for_status()\<close>\<close>
  | TransportError          \<comment> \<open>anything else the HTTP client raises\<close>

text \<open>
  The values of \<^verbatim>\<open>json.loads\<close>. An object is the list of its entries, one for each key.
\<close>

datatype json_value =
    JNull
  | JBool bool
  | JNumber real
  | JString string
  | JArray "json_value list"
  | JObject "(string \<times> json_value) list"

record auth_challenge =
  challenge :: string
  verifier :: string

record token_data =
  token :: json_value
  expiration :: real

record auth_sess_data =
  session_code :: string
  execution :: string
  tab_id :: string

datatype http_method = GET | POST

record request =
  http_method :: http_method
  url :: string
  params :: "(string \<times> string) list"
  data :: "(string \<times> json_value) list"
  req_headers :: "(string \<times> string) list"
  allow_redirects :: bool

text \<open>
  What the module reads of an aiohttp response. \<open>headers\<close> is the case-insensitive lookup of
  the response's header multidict, under the lower-case name. \<open>text_body\<close> and \<open>json\<close> are
  the outcomes of \<^verbatim>\<open>await response.text()\<close> and \<^verbatim>\<open>await response.json()\<close>, which raise on a
  body they cannot decode.
\<close>

record response =
  status :: int
  headers :: "string \<rightharpoonup> string"
  text_body :: "error + string"
  json :: "error + json_value"

text \<open>An element found by BeautifulSoup: the module reads its attribute dictionary only.\<close>

record tag =
  attrs :: "string \<rightharpoonup> string"

record 'w env =
  send :: "request \<Rightarrow> 'w \<Rightarrow> (error + response) \<times> 'w"
    \<comment> \<open>\<^verbatim>\<open>client.get\<close> / \<^verbatim>\<open>client.post\<close>\<close>
  now :: "'w \<Rightarrow> real"
    \<comment> \<open>\<^verbatim>\<open>datetime.datetime.now().timestamp()\<close>\<close>
  urandom :: "nat \<Rightarrow> 'w \<Rightarrow> byte list \<times> 'w"
    \<comment> \<open>\<^verbatim>\<open>os.urandom\<close>\<close>
  sha256 :: "byte list \<Rightarrow> byte list"
    \<comment> \<open>\<^verbatim>\<open>hashlib.sha256(b).digest()\<close>\<close>
  soup_find_id :: "string \<Rightarrow> string \<Rightarrow> error + tag option"
    \<comment> \<open>\<^verbatim>\<open>BeautifulSoup(page, features="html.parser").find(id=i)\<close>\<close>
  urlparse_query :: "string \<Rightarrow> error + string"
    \<comment> \<open>\<^verbatim>\<open>urlparse(u).query\<close>\<close>
  parse_qs :: "string \<Rightarrow> error + (string \<rightharpoonup> string list)"
    \<comment> \<open>\<^verbatim>\<open>urllib.parse.parse_qs\<close>\<close>
  HUBSPACE_DEFAULT_USERAGENT :: string
    \<comment> \<open>the constant of \<^verbatim>\<open>const.py\<close>\<close>

text \<open>The client session as the model sees it: the requests sent so far and the world.\<close>

record 'w net =
  sent :: "request list"
  world :: "'w"

text \<open>
  The authenticator. \<open>refresh_token\<close> holds whatever the login stored, \<open>JNull\<close> for
  \<^verbatim>\<open>None\<close>.
\<close>

record HubSpaceAuth =
  username :: string
  password :: string
  refresh_token :: json_value
  token_data :: "token_data option"

definition init :: "string \<Rightarrow> string \<Rightarrow> HubSpaceAuth" where
  "init user pass =
     \<lparr>username = user, password = pass, refresh_token = JNull, token_data = None\<rparr>"

subsection \<open>Python's subscripts and truth values\<close>

text \<open>\<^verbatim>\<open>d[k]\<close> on a dictionary, \<^verbatim>\<open>xs[0]\<close> on a list, \<^verbatim>\<open>v[k]\<close> on a JSON value, \<^verbatim>\<open>not v\<close>.\<close>

definition lookup :: "('k \<rightharpoonup> 'v) \<Rightarrow> 'k \<Rightarrow> error + 'v" where
  "lookup d k = (case d k of None \<Rightarrow> Inl KeyError | Some v \<Rightarrow> Inr v)"

definition first :: "'a list \<Rightarrow> error + 'a" where
  "first xs = (case xs of [] \<Rightarrow> Inl IndexError | x # _ \<Rightarrow> Inr x)"

fun subscript :: "json_value \<Rightarrow> string \<Rightarrow> error + json_value" where
  "subscript (JObject kvs) k = lookup (map_of kvs) k"
| "subscript _ k = Inl TypeError"

fun truthy :: "json_value \<Rightarrow> bool" where
  "truthy JNull = False"
| "truthy (JBool b) = b"
| "truthy (JNumber x) = (x \<noteq> 0)"
| "truthy (JString s) = (s \<noteq> [])"
| "truthy (JArray vs) = (vs \<noteq> [])"
| "truthy (JObject kvs) = (kvs \<noteq> [])"

subsection \<open>The transport\<close>

definition request :: "'w env \<Rightarrow> request \<Rightarrow> 'w net \<Rightarrow> (error + response) \<times> 'w net" where
  "request env rq n =
     (case send env rq (world n) of
        (r, w') \<Rightarrow> (r, \<lparr>sent = sent n @ [rq], world = w'\<rparr>))"

text \<open>aiohttp raises for a status of 400 and above.\<close>

definition raise_for_status :: "response \<Rightarrow> error + unit" where
  "raise_for_status resp = (if 400 \<le> status resp then Inl ClientResponseError else Inr ())"

definition HUBSPACE_TOKEN_HEADERS :: "'w env \<Rightarrow> (string \<times> string) list" where
  "HUBSPACE_TOKEN_HEADERS env =
     [(''Content-Type'', ''application/x-www-form-urlencoded''),
      (''user-agent'', HUBSPACE_DEFAULT_USERAGENT env),
      (''host'', ''accounts.hubspaceconnect.com'')]"

subsection \<open>The challenge generator\<close>

definition b64_alphabet :: string where
  "b64_alphabet = ''ABCDEFGHIJKLMNOPQRSTUVWXYZabcdefghijklmnopqrstuvwxyz0123456789-_''"

definition b64_char :: "nat \<Rightarrow> char" where
  "b64_char i = b64_alphabet ! (i mod 64)"

text \<open>\<^verbatim>\<open>base64.urlsafe_b64encode\<close>, followed by \<^verbatim>\<open>.decode("utf-8")\<close> of its ASCII output.\<close>

fun urlsafe_b64encode :: "byte list \<Rightarrow> string" where
  "urlsafe_b64encode (a # b # c # rest) =
     (let n = unat a * 65536 + unat b * 256 + unat c
      in b64_char (n div 262144) # b64_char (n div 4096) # b64_char (n div 64) # b64_char n
         # urlsafe_b64encode rest)"
| "urlsafe_b64encode [a, b] =
     (let n = unat a * 65536 + unat b * 256
      in [b64_char (n div 262144), b64_char (n div 4096), b64_char (n div 64), CHR ''=''])"
| "urlsafe_b64encode [a] =
     (let n = unat a * 65536
      in [b64_char (n div 262144), b64_char (n div 4096), CHR ''='', CHR ''=''])"
| "urlsafe_b64encode [] = []"

text \<open>The characters the pattern \<^verbatim>\<open>[^a-zA-Z0-9]+\<close> leaves in place.\<close>

definition alnum :: "char \<Rightarrow> bool" where
  "alnum c =
     (let k = (of_char c :: nat)
      in (97 \<le> k \<and> k \<le> 122) \<or> (65 \<le> k \<and> k \<le> 90) \<or> (48 \<le> k \<and> k \<le> 57))"

text \<open>
  \<^verbatim>\<open>s.encode("utf-8")\<close>. The characters of a \<open>string\<close> are the code points below 256: one
  byte below 128, two bytes from there on.
\<close>

definition utf8_char :: "char \<Rightarrow> byte list" where
  "utf8_char c =
     (let k = (of_char c :: nat)
      in if k < 128 then [of_nat k] else [of_nat (192 + k div 64), of_nat (128 + k mod 64)])"

definition encode_utf8 :: "string \<Rightarrow> byte list" where
  "encode_utf8 s = concat (map utf8_char s)"

definition generate_challenge_data :: "'w env \<Rightarrow> 'w net \<Rightarrow> auth_challenge \<times> 'w net" where
  "generate_challenge_data env n =
     (case urandom env 40 (world n) of
        (rnd, w') \<Rightarrow>
          (let code_verifier = urlsafe_b64encode rnd;
               code_verifier = filter alnum code_verifier;
               code_challenge = sha256 env (encode_utf8 code_verifier);
               code_challenge = urlsafe_b64encode code_challenge;
               code_challenge = filter (\<lambda>c. c \<noteq> CHR ''='') code_challenge
           in (\<lparr>challenge = code_challenge, verifier = code_verifier\<rparr>, n\<lparr>world := w'\<rparr>)))"

subsection \<open>Scraping the login page\<close>

text \<open>
  \<^verbatim>\<open>urlparse\<close> and \<^verbatim>\<open>parse_qs\<close> are called outside the \<^verbatim>\<open>try\<close> blocks: what they raise
  propagates. The last \<^verbatim>\<open>try\<close> turns the \<^verbatim>\<open>KeyError\<close> of a missing key and the \<^verbatim>\<open>IndexError\<close>
  of an empty list of values into \<^verbatim>\<open>InvalidResponse\<close>.
\<close>

definition extract_login_data :: "'w env \<Rightarrow> string \<Rightarrow> error + auth_sess_data" where
  "extract_login_data env page =
     (case soup_find_id env page ''kc-form-login'' of
        Inl e \<Rightarrow> Inl e
      | Inr None \<Rightarrow> Inl InvalidResponse
      | Inr (Some login_form) \<Rightarrow>
          (case attrs login_form ''action'' of
             None \<Rightarrow> Inl InvalidResponse
           | Some login_url \<Rightarrow>
               (case urlparse_query env login_url of
                  Inl e \<Rightarrow> Inl e
                | Inr query \<Rightarrow>
                    (case parse_qs env query of
                       Inl e \<Rightarrow> Inl e
                     | Inr login_data \<Rightarrow>
                         (case (login_data ''session_code'', login_data ''execution'',
                                login_data ''tab_id'') of
                            (Some (sc # _), Some (ex # _), Some (tb # _)) \<Rightarrow>
                               Inr \<lparr>session_code = sc, execution = ex, tab_id = tb\<rparr>
                          | _ \<Rightarrow> Inl InvalidResponse)))))"

subsection \<open>Submitting the credentials\<close>

text \<open>
  The \<^verbatim>\<open>try\<close> block of \<^verbatim>\<open>generate_code\<close>: the header lookup, \<^verbatim>\<open>urlparse\<close>, \<^verbatim>\<open>parse_qs\<close> and the
  two subscripts. Its handler catches \<^verbatim>\<open>KeyError\<close> only.
\<close>

definition location_code :: "'w env \<Rightarrow> response \<Rightarrow> error + string" where
  "location_code env resp =
     (case lookup (headers resp) ''location'' of
        Inl e \<Rightarrow> Inl e
      | Inr location \<Rightarrow>
          (case urlparse_query env location of
             Inl e \<Rightarrow> Inl e
           | Inr query \<Rightarrow>
               (case parse_qs env query of
                  Inl e \<Rightarrow> Inl e
                | Inr qs \<Rightarrow>
                    (case lookup qs ''code'' of
                       Inl e \<Rightarrow> Inl e
                     | Inr codes \<Rightarrow> first codes))))"

definition generate_code ::
  "'w env \<Rightarrow> HubSpaceAuth \<Rightarrow> string \<Rightarrow> string \<Rightarrow> string \<Rightarrow> 'w net \<Rightarrow> (error + string) \<times> 'w net"
where
  "generate_code env self session_code' execution' tab_id' n =
     (let params = [(''session_code'', session_code'), (''execution'', execution'),
                    (''client_id'', HUBSPACE_DEFAULT_CLIENT_ID), (''tab_id'', tab_id')];
          headers' = [(''Content-Type'', ''application/x-www-form-urlencoded''),
                      (''user-agent'', HUBSPACE_DEFAULT_USERAGENT env)];
          auth_data = [(''username'', JString (username self)),
                       (''password'', JString (password self)),
                       (''credentialId'', JString [])]
      in case request env
                \<lparr>http_method = POST, url = HUBSPACE_CODE_URL, params = params,
                 data = auth_data, req_headers = headers', allow_redirects = False\<rparr> n of
           (Inl e, n') \<Rightarrow> (Inl e, n')
         | (Inr resp, n') \<Rightarrow>
             if status resp \<noteq> 302 then (Inl InvalidResponse, n')
             else
               (case location_code env resp of
                  Inl e \<Rightarrow> if e = KeyError then (Inl InvalidAuth, n') else (Inl e, n')
                | Inr code \<Rightarrow> (Inr code, n')))"

definition webapp_login ::
  "'w env \<Rightarrow> HubSpaceAuth \<Rightarrow> auth_challenge \<Rightarrow> 'w net \<Rightarrow> (error + string) \<times> 'w net"
where
  "webapp_login env self chal n =
     (let code_params = [(''response_type'', ''code''),
                         (''client_id'', HUBSPACE_DEFAULT_CLIENT_ID),
                         (''redirect_uri'', HUBSPACE_DEFAULT_REDIRECT_URI),
                         (''code_challenge'', challenge chal),
                         (''code_challenge_method'', ''S256''),
                         (''scope'', ''openid offline_access'')]
      in case request env
                \<lparr>http_method = GET, url = HUBSPACE_OPENID_URL, params = code_params,
                 data = [], req_headers = [], allow_redirects = True\<rparr> n of
           (Inl e, n') \<Rightarrow> (Inl e, n')
         | (Inr resp, n') \<Rightarrow>
             (case raise_for_status resp of
                Inl e \<Rightarrow> (Inl e, n')
              | Inr _ \<Rightarrow>
                  (case text_body resp of
                     Inl e \<Rightarrow> (Inl e, n')
                   | Inr page \<Rightarrow>
                       (case extract_login_data env page of
                          Inl e \<Rightarrow> (Inl e, n')
                        | Inr login_data \<Rightarrow>
                            generate_code env self (session_code login_data)
                              (execution login_data) (tab_id login_data) n'))))"

subsection \<open>The token endpoint\<close>

text \<open>
  Both exchanges subscript the JSON answer inside \<^verbatim>\<open>try ... except KeyError\<close>: a missing key
  is \<^verbatim>\<open>InvalidResponse\<close>, the \<^verbatim>\<open>TypeError\<close> of an answer that is no object propagates, and the
  value of the field is returned as it is.
\<close>

definition generate_refresh_token ::
  "'w env \<Rightarrow> string \<Rightarrow> auth_challenge \<Rightarrow> 'w net \<Rightarrow> (error + json_value) \<times> 'w net"
where
  "generate_refresh_token env code chal n =
     (let data = [(''grant_type'', JString ''authorization_code''),
                  (''code'', JString code),
                  (''redirect_uri'', JString HUBSPACE_DEFAULT_REDIRECT_URI),
                  (''code_verifier'', JString (verifier chal)),
                  (''client_id'', JString HUBSPACE_DEFAULT_CLIENT_ID)]
      in case request env
                \<lparr>http_method = POST, url = HUBSPACE_TOKEN_URL, params = [],
                 data = data, req_headers = HUBSPACE_TOKEN_HEADERS env,
                 allow_redirects = True\<rparr> n of
           (Inl e, n') \<Rightarrow> (Inl e, n')
         | (Inr resp, n') \<Rightarrow>
             (case raise_for_status resp of
                Inl e \<Rightarrow> (Inl e, n')
              | Inr _ \<Rightarrow>
                  (case json resp of
                     Inl e \<Rightarrow> (Inl e, n')
                   | Inr resp_json \<Rightarrow>
                       (case subscript resp_json ''refresh_token'' of
                          Inl e \<Rightarrow>
                            if e = KeyError then (Inl InvalidResponse, n') else (Inl e, n')
                        | Inr refresh_token' \<Rightarrow> (Inr refresh_token', n')))))"

definition generate_token ::
  "'w env \<Rightarrow> json_value \<Rightarrow> 'w net \<Rightarrow> (error + token_data) \<times> 'w net"
where
  "generate_token env refresh_token' n =
     (let data = [(''grant_type'', JString ''refresh_token''),
                  (''refresh_token'', refresh_token'),
                  (''scope'', JString ''openid email offline_access profile''),
                  (''client_id'', JString ''hubspace_android'')]
      in case request env
                \<lparr>http_method = POST, url = HUBSPACE_TOKEN_URL, params = [],
                 data = data, req_headers = HUBSPACE_TOKEN_HEADERS env,
                 allow_redirects = True\<rparr> n of
           (Inl e, n') \<Rightarrow> (Inl e, n')
         | (Inr resp, n') \<Rightarrow>
             (case raise_for_status resp of
                Inl e \<Rightarrow> (Inl e, n')
              | Inr _ \<Rightarrow>
                  (case json resp of
                     Inl e \<Rightarrow> (Inl e, n')
                   | Inr resp_json \<Rightarrow>
                       (case subscript resp_json ''id_token'' of
                          Inl e \<Rightarrow>
                            if e = KeyError then (Inl InvalidResponse, n') else (Inl e, n')
                        | Inr auth_token \<Rightarrow>
                            (Inr \<lparr>token = auth_token,
                                  expiration = now env (world n') + TOKEN_TIMEOUT\<rparr>, n')))))"

subsection \<open>The authenticator\<close>

definition perform_initial_login ::
  "'w env \<Rightarrow> HubSpaceAuth \<Rightarrow> 'w net \<Rightarrow> (error + json_value) \<times> 'w net"
where
  "perform_initial_login env self n =
     (case generate_challenge_data env n of
        (chal, n1) \<Rightarrow>
          (case webapp_login env self chal n1 of
             (Inl e, n2) \<Rightarrow> (Inl e, n2)
           | (Inr code, n2) \<Rightarrow> generate_refresh_token env code chal n2))"

text \<open>
  \<^verbatim>\<open>not self._token_data\<close>: a named tuple of two fields is true, only \<^verbatim>\<open>None\<close> is false.
\<close>

definition is_expired :: "'w env \<Rightarrow> HubSpaceAuth \<Rightarrow> 'w \<Rightarrow> bool" where
  "is_expired env self w =
     (case token_data self of
        None \<Rightarrow> True
      | Some td \<Rightarrow> now env w \<ge> expiration td)"

text \<open>
  \<^verbatim>\<open>HubSpaceAuth.token\<close>. The result is the value returned or the exception raised, the
  authenticator as the call leaves it, and the client session. The call stores what
  \<^verbatim>\<open>perform_initial_login\<close> returns, whatever it is, and hands \<^verbatim>\<open>self._refresh_token\<close> to
  \<^verbatim>\<open>generate_token\<close>.
\<close>

definition HubSpaceAuth_token ::
  "'w env \<Rightarrow> HubSpaceAuth \<Rightarrow> 'w net \<Rightarrow> (error + json_value) \<times> HubSpaceAuth \<times> 'w net"
where
  "HubSpaceAuth_token env self n =
     (case (if \<not> truthy (refresh_token self)
            then (case perform_initial_login env self n of
                    (Inl e, n1) \<Rightarrow> (Inl e, self, n1)
                  | (Inr r, n1) \<Rightarrow> (Inr (), self\<lparr>refresh_token := r\<rparr>, n1))
            else (Inr (), self, n)) of
        (Inl e, self1, n1) \<Rightarrow> (Inl e, self1, n1)
      | (Inr _, self1, n1) \<Rightarrow>
          (case (if is_expired env self1 (world n1)
                 then (case generate_token env (refresh_token self1) n1 of
                         (Inl e, n2) \<Rightarrow> (Inl e, self1, n2)
                       | (Inr td, n2) \<Rightarrow> (Inr (), self1\<lparr>token_data := Some td\<rparr>, n2))
                 else (Inr (), self1, n1)) of
             (Inl e, self2, n2) \<Rightarrow> (Inl e, self2, n2)
           | (Inr _, self2, n2) \<Rightarrow>
               (case token_data self2 of
                  None \<Rightarrow> (Inl AttributeError, self2, n2)
                | Some td \<Rightarrow> (Inr (token td), self2, n2))))"

subsection \<open>The requests of the protocol\<close>

text \<open>
  The four requests the module sends, as the functions above build them, and the two
  kinds of exchange the properties below count.
\<close>

definition login_page_get :: "auth_challenge \<Rightarrow> request" where
  "login_page_get chal =
     \<lparr>http_method = GET, url = HUBSPACE_OPENID_URL,
      params = [(''response_type'', ''code''),
                (''client_id'', HUBSPACE_DEFAULT_CLIENT_ID),
                (''redirect_uri'', HUBSPACE_DEFAULT_REDIRECT_URI),
                (''code_challenge'', challenge chal),
                (''code_challenge_method'', ''S256''),
                (''scope'', ''openid offline_access'')],
      data = [], req_headers = [], allow_redirects = True\<rparr>"

definition credential_post ::
  "'w env \<Rightarrow> HubSpaceAuth \<Rightarrow> string \<Rightarrow> string \<Rightarrow> string \<Rightarrow> request"
where
  "credential_post env self sc ex tb =
     \<lparr>http_method = POST, url = HUBSPACE_CODE_URL,
      params = [(''session_code'', sc), (''execution'', ex),
                (''client_id'', HUBSPACE_DEFAULT_CLIENT_ID), (''tab_id'', tb)],
      data = [(''username'', JString (username self)), (''password'', JString (password self)),
              (''credentialId'', JString [])],
      req_headers = [(''Content-Type'', ''application/x-www-form-urlencoded''),
                     (''user-agent'', HUBSPACE_DEFAULT_USERAGENT env)],
      allow_redirects = False\<rparr>"

definition code_exchange_post :: "'w env \<Rightarrow> string \<Rightarrow> auth_challenge \<Rightarrow> request" where
  "code_exchange_post env code chal =
     \<lparr>http_method = POST, url = HUBSPACE_TOKEN_URL, params = [],
      data = [(''grant_type'', JString ''authorization_code''),
              (''code'', JString code),
              (''redirect_uri'', JString HUBSPACE_DEFAULT_REDIRECT_URI),
              (''code_verifier'', JString (verifier chal)),
              (''client_id'', JString HUBSPACE_DEFAULT_CLIENT_ID)],
      req_headers = HUBSPACE_TOKEN_HEADERS env, allow_redirects = True\<rparr>"

definition refresh_post :: "'w env \<Rightarrow> json_value \<Rightarrow> request" where
  "refresh_post env r =
     \<lparr>http_method = POST, url = HUBSPACE_TOKEN_URL, params = [],
      data = [(''grant_type'', JString ''refresh_token''),
              (''refresh_token'', r),
              (''scope'', JString ''openid email offline_access profile''),
              (''client_id'', JString ''hubspace_android'')],
      req_headers = HUBSPACE_TOKEN_HEADERS env, allow_redirects = True\<rparr>"

text \<open>
  The refresh-token exchange is the POST of the refresh-token grant to the token endpoint;
  the login chain starts with the GET of the login page.
\<close>

definition is_refresh_exchange :: "request \<Rightarrow> bool" where
  "is_refresh_exchange rq =
     (http_method rq = POST \<and> url rq = HUBSPACE_TOKEN_URL
      \<and> map_of (data rq) ''grant_type'' = Some (JString ''refresh_token''))"

definition is_login_page_get :: "request \<Rightarrow> bool" where
  "is_login_page_get rq = (http_method rq = GET \<and> url rq = HUBSPACE_OPENID_URL)"

subsection \<open>Repeated calls\<close>

text \<open>
  A caller that asks for the token again and again. Between two calls the world moves on as
  it likes (time passes): each call comes with the change the world has gone through
  since the call before.
\<close>

fun token_calls ::
  "'w env \<Rightarrow> ('w \<Rightarrow> 'w) list \<Rightarrow> HubSpaceAuth \<Rightarrow> 'w net \<Rightarrow> HubSpaceAuth \<times> 'w net"
where
  "token_calls env [] self n = (self, n)"
| "token_calls env (tick # ticks) self n =
     (case HubSpaceAuth_token env self (n\<lparr>world := tick (world n)\<rparr>) of
        (_, self', n') \<Rightarrow> token_calls env ticks self' n')"

subsection \<open>A scripted provider\<close>

text \<open>
  A provider to run the module against: it answers the requests with the replies of a
  script, one after the other, and its clock advances by a second with every request. The
  library functions are tables that hold what the libraries compute, or raise, on the
  sample inputs.
\<close>

record sim =
  clock :: real
  replies :: "(error + response) list"
  entropy :: "byte list"

definition sim_send :: "request \<Rightarrow> sim \<Rightarrow> (error + response) \<times> sim" where
  "sim_send rq w =
     (case replies w of
        [] \<Rightarrow> (Inl TransportError, w\<lparr>clock := clock w + 1\<rparr>)
      | r # rs \<Rightarrow> (r, w\<lparr>clock := clock w + 1, replies := rs\<rparr>))"

definition sim_urandom :: "nat \<Rightarrow> sim \<Rightarrow> byte list \<times> sim" where
  "sim_urandom k w = (take k (entropy w), w\<lparr>entropy := drop k (entropy w)\<rparr>)"

definition sample_entropy :: "byte list" where
  "sample_entropy =
     [251, 255, 191, 0, 1, 2, 3, 4, 5, 6, 7, 8, 9, 10, 11, 12, 13, 14, 15, 16, 17, 18, 19,
      20, 21, 22, 23, 24, 25, 26, 27, 28, 29, 30, 31, 32, 33, 34, 35, 36]"

definition sample_challenge :: auth_challenge where
  "sample_challenge =
     \<lparr>challenge = ''tubxcV0G2q4lGaNdWZPdkvIEkowN3OAY-vSs8YF9FNw'',
      verifier = ''AAECAwQFBgcICQoLDA0ODxAREhMUFRYXGBkaGxwdHh8gISIjJA''\<rparr>"

definition sim_sha256 :: "byte list \<Rightarrow> byte list" where
  "sim_sha256 b =
     (if b = [65, 65, 69, 67, 65, 119, 81, 70, 66, 103, 99, 73, 67, 81, 111, 76, 68, 65, 48,
              79, 68, 120, 65, 82, 69, 104, 77, 85, 70, 82, 89, 88, 71, 66, 107, 97, 71, 120,
              119, 100, 72, 104, 56, 103, 73, 83, 73, 106, 74, 65]
      then [182, 230, 241, 113, 93, 6, 218, 174, 37, 25, 163, 93, 89, 147, 221, 146, 242, 4,
            146, 140, 13, 220, 224, 24, 250, 244, 172, 241, 129, 125, 20, 220]
      else [])"

definition sim_find_id :: "string \<Rightarrow> string \<Rightarrow> error + tag option" where
  "sim_find_id page i =
     (if i \<noteq> ''kc-form-login'' then Inr None
      else if page = ''login''
      then Inr (Some \<lparr>attrs = [''action'' \<mapsto> ''/auth?session_code=S&execution=E&tab_id=T'']\<rparr>)
      else if page = ''short'' then Inr (Some \<lparr>attrs = [''action'' \<mapsto> ''/auth?session_code=S'']\<rparr>)
      else if page = ''bare'' then Inr (Some \<lparr>attrs = Map.empty\<rparr>)
      else if page = ''broken'' then Inr (Some \<lparr>attrs = [''action'' \<mapsto> ''//[bad'']\<rparr>)
      else Inr None)"

definition sim_query :: "string \<Rightarrow> error + string" where
  "sim_query u =
     (if u = ''//[bad'' \<or> u = ''hubspace-app://[bad'' then Inl ValueError
      else Inr (drop 1 (dropWhile (\<lambda>c. c \<noteq> CHR ''?'') u)))"

definition sim_parse_qs :: "string \<Rightarrow> error + (string \<rightharpoonup> string list)" where
  "sim_parse_qs q =
     Inr (if q = ''session_code=S&execution=E&tab_id=T''
          then [''session_code'' \<mapsto> [''S''], ''execution'' \<mapsto> [''E''], ''tab_id'' \<mapsto> [''T'']]
          else if q = ''session_code=S'' then [''session_code'' \<mapsto> [''S'']]
          else if q = ''code=ABC123'' then [''code'' \<mapsto> [''ABC123'']]
          else if q = ''error=denied'' then [''error'' \<mapsto> [''denied'']]
          else Map.empty)"

definition sim_env :: "sim env" where
  "sim_env =
     \<lparr>send = sim_send, now = clock, urandom = sim_urandom, sha256 = sim_sha256,
      soup_find_id = sim_find_id, urlparse_query = sim_query, parse_qs = sim_parse_qs,
      HUBSPACE_DEFAULT_USERAGENT = ''agent''\<rparr>"

definition page_response :: "string \<Rightarrow> response" where
  "page_response page =
     \<lparr>status = 200, headers = Map.empty, text_body = Inr page, json = Inl TransportError\<rparr>"

definition redirect_response :: "int \<Rightarrow> string option \<Rightarrow> response" where
  "redirect_response st loc =
     \<lparr>status = st, headers = (\<lambda>h. if h = ''location'' then loc else None),
      text_body = Inr [], json = Inl TransportError\<rparr>"

definition json_response :: "json_value \<Rightarrow> response" where
  "json_response v =
     \<lparr>status = 200, headers = Map.empty, text_body = Inr [], json = Inr v\<rparr>"

definition sim_net :: "real \<Rightarrow> response list \<Rightarrow> byte list \<Rightarrow> sim net" where
  "sim_net t rs bs = \<lparr>sent = [], world = \<lparr>clock = t, replies = map Inr rs, entropy = bs\<rparr>\<rparr>"

definition login_replies :: "json_value \<Rightarrow> response list" where
  "login_replies rt =
     [page_response ''login'',
      redirect_response 302 (Some ''hubspace-app://loginredirect?code=ABC123''),
      json_response (JObject [(''refresh_token'', rt)])]"

definition cached :: "json_value \<Rightarrow> token_data option \<Rightarrow> HubSpaceAuth" where
  "cached r td = \<lparr>username = ''user'', password = ''secret'', refresh_token = r, token_data = td\<rparr>"

section \<open>Properties\<close>

subsection \<open>What each function sends and returns\<close>

lemma request_sent: "request env rq n = (r, n') \<Longrightarrow> sent n' = sent n @ [rq] \<and> (r, world n') = send env rq (world n)"
  by (auto simp: request_def split: prod.splits)

lemma generate_code_eq:
  "generate_code env self sc ex tb n =
     (case request env (credential_post env self sc ex tb) n of
        (Inl e, n') \<Rightarrow> (Inl e, n')
      | (Inr resp, n') \<Rightarrow>
          if status resp \<noteq> 302 then (Inl InvalidResponse, n')
          else
            (case location_code env resp of
               Inl e \<Rightarrow> if e = KeyError then (Inl InvalidAuth, n') else (Inl e, n')
             | Inr code \<Rightarrow> (Inr code, n')))"
  by (simp add: generate_code_def credential_post_def)

lemma generate_token_eq:
  "generate_token env r n =
     (case request env (refresh_post env r) n of
        (Inl e, n') \<Rightarrow> (Inl e, n')
      | (Inr resp, n') \<Rightarrow>
          (case raise_for_status resp of
             Inl e \<Rightarrow> (Inl e, n')
           | Inr _ \<Rightarrow>
               (case json resp of
                  Inl e \<Rightarrow> (Inl e, n')
                | Inr resp_json \<Rightarrow>
                    (case subscript resp_json ''id_token'' of
                       Inl e \<Rightarrow>
                         if e = KeyError then (Inl InvalidResponse, n') else (Inl e, n')
                     | Inr auth_token \<Rightarrow>
                         (Inr \<lparr>token = auth_token,
                               expiration = now env (world n') + TOKEN_TIMEOUT\<rparr>, n')))))"
  by (simp add: generate_token_def refresh_post_def)

lemma generate_token_sent:
  "generate_token env r n = (res, n') \<Longrightarrow> sent n' = sent n @ [refresh_post env r]"
  by (auto simp: generate_token_eq request_def split: prod.splits sum.splits option.splits if_splits)

lemma generate_token_expiration:
  "generate_token env r n = (Inr td, n') \<Longrightarrow> expiration td = now env (world n') + TOKEN_TIMEOUT"
  by (auto simp: generate_token_eq request_def split: prod.splits sum.splits option.splits if_splits)

lemma generate_code_sent:
  "generate_code env self sc ex tb n = (res, n') \<Longrightarrow>
     sent n' = sent n @ [credential_post env self sc ex tb]"
  by (auto simp: generate_code_eq request_def split: prod.splits sum.splits option.splits if_splits list.splits)

lemma generate_refresh_token_eq:
  "generate_refresh_token env code chal n =
     (case request env (code_exchange_post env code chal) n of
           (Inl e, n') \<Rightarrow> (Inl e, n')
         | (Inr resp, n') \<Rightarrow>
             (case raise_for_status resp of
                Inl e \<Rightarrow> (Inl e, n')
              | Inr _ \<Rightarrow>
                  (case json resp of
                     Inl e \<Rightarrow> (Inl e, n')
                   | Inr resp_json \<Rightarrow>
                       (case subscript resp_json ''refresh_token'' of
                          Inl e \<Rightarrow>
                            if e = KeyError then (Inl InvalidResponse, n') else (Inl e, n')
                        | Inr refresh_token' \<Rightarrow> (Inr refresh_token', n')))))"
  by (simp add: generate_refresh_token_def code_exchange_post_def)

lemma generate_refresh_token_sent:
  "generate_refresh_token env code chal n = (res, n') \<Longrightarrow>
     sent n' = sent n @ [code_exchange_post env code chal]"
  by (auto simp: generate_refresh_token_eq request_def split: prod.splits sum.splits option.splits if_splits)

lemma webapp_login_eq:
  "webapp_login env self chal n =
     (case request env (login_page_get chal) n of
           (Inl e, n') \<Rightarrow> (Inl e, n')
         | (Inr resp, n') \<Rightarrow>
             (case raise_for_status resp of
                Inl e \<Rightarrow> (Inl e, n')
              | Inr _ \<Rightarrow>
                  (case text_body resp of
                     Inl e \<Rightarrow> (Inl e, n')
                   | Inr page \<Rightarrow>
                       (case extract_login_data env page of
                          Inl e \<Rightarrow> (Inl e, n')
                        | Inr login_data \<Rightarrow>
                            generate_code env self (session_code login_data)
                              (execution login_data) (tab_id login_data) n'))))"
  by (simp add: webapp_login_def login_page_get_def)

lemma webapp_login_sent:
  assumes "webapp_login env self chal n = (res, n')"
  shows "(\<exists>sc ex tb. sent n' = sent n @ [login_page_get chal, credential_post env self sc ex tb])
         \<or> (sent n' = sent n @ [login_page_get chal] \<and> (\<exists>e. res = Inl e))"
proof (cases "request env (login_page_get chal) n")
  case (Pair r n1)
  then have s1: "sent n1 = sent n @ [login_page_get chal]"
    by (simp add: request_sent)
  show ?thesis
    using assms Pair s1
    by (auto simp: webapp_login_eq split: sum.splits if_splits dest!: generate_code_sent)
       (blast | metis)+
qed

lemma generate_challenge_data_sent:
  "generate_challenge_data env n = (chal, n') \<Longrightarrow> sent n' = sent n"
  by (auto simp: generate_challenge_data_def Let_def split: prod.splits)

lemma perform_initial_login_sent:
  assumes "perform_initial_login env self n = (res, n')"
  shows "\<exists>chal. (\<exists>sc ex tb code. sent n' = sent n @ [login_page_get chal, credential_post env self sc ex tb, code_exchange_post env code chal])
         \<or> ((\<exists>e. res = Inl e) \<and> ((\<exists>sc ex tb. sent n' = sent n @ [login_page_get chal, credential_post env self sc ex tb])
         \<or> sent n' = sent n @ [login_page_get chal]))"
proof (cases "generate_challenge_data env n")
  case (Pair chal n1)
  then have s1: "sent n1 = sent n" by (rule generate_challenge_data_sent)
  show ?thesis
  proof (cases "webapp_login env self chal n1")
    case wl: (Pair r n2)
    from webapp_login_sent[OF wl] s1 assms Pair wl
    show ?thesis
      by (auto simp: perform_initial_login_def split: sum.splits if_splits dest!: generate_refresh_token_sent) blast+
  qed
qed

lemma is_expired_iff:
  "is_expired env self w \<longleftrightarrow>
     (token_data self = None \<or> (\<exists>td. token_data self = Some td \<and> expiration td \<le> now env w))"
  by (simp add: is_expired_def split: option.splits)

lemma is_expired_refresh_token_update [simp]:
  "is_expired env (self\<lparr>refresh_token := x\<rparr>) w = is_expired env self w"
  by (simp add: is_expired_def)

lemma token_cached:
  assumes "truthy (refresh_token self)" and "\<not> is_expired env self (world n)"
  shows "\<exists>td. token_data self = Some td \<and> expiration td > now env (world n)
            \<and> HubSpaceAuth_token env self n = (Inr (token td), self, n)"
  using assms by (auto simp: HubSpaceAuth_token_def is_expired_def split: option.splits)

lemma token_refresh:
  assumes "truthy (refresh_token self)" and "is_expired env self (world n)"
  shows "HubSpaceAuth_token env self n =
           (case generate_token env (refresh_token self) n of
              (Inl e, n2) \<Rightarrow> (Inl e, self, n2)
            | (Inr td, n2) \<Rightarrow> (Inr (token td), self\<lparr>token_data := Some td\<rparr>, n2))"
  using assms by (auto simp: HubSpaceAuth_token_def split: prod.splits sum.splits)

lemma token_login:
  assumes "\<not> truthy (refresh_token self)"
  shows "HubSpaceAuth_token env self n =
           (case perform_initial_login env self n of
              (Inl e, n1) \<Rightarrow> (Inl e, self, n1)
            | (Inr r, n1) \<Rightarrow>
                if is_expired env self (world n1)
                then (case generate_token env r n1 of
                        (Inl e, n2) \<Rightarrow> (Inl e, self\<lparr>refresh_token := r\<rparr>, n2)
                      | (Inr td, n2) \<Rightarrow>
                          (Inr (token td), self\<lparr>refresh_token := r, token_data := Some td\<rparr>, n2))
                else (case token_data self of
                        None \<Rightarrow> (Inl AttributeError, self\<lparr>refresh_token := r\<rparr>, n1)
                      | Some td \<Rightarrow> (Inr (token td), self\<lparr>refresh_token := r\<rparr>, n1)))"
  using assms by (auto simp: HubSpaceAuth_token_def split: prod.splits sum.splits option.splits)

lemma is_refresh_exchange_refresh_post [simp]: "is_refresh_exchange (refresh_post env r)"
  by (simp add: is_refresh_exchange_def refresh_post_def)

lemma token_with_refresh_token_step:
  assumes "truthy (refresh_token self)"
    and "HubSpaceAuth_token env self n = (res, self', n')"
  shows "refresh_token self' = refresh_token self
       \<and> (if is_expired env self (world n)
          then sent n' = sent n @ [refresh_post env (refresh_token self)]
          else self' = self \<and> n' = n \<and> (\<exists>td. token_data self = Some td \<and> res = Inr (token td)))"
proof (cases "is_expired env self (world n)")
  case True
  obtain gr n2 where g: "generate_token env (refresh_token self) n = (gr, n2)"
    by (cases "generate_token env (refresh_token self) n")
  from generate_token_sent[OF g] token_refresh[OF assms(1) True] assms(2) g True
  show ?thesis by (auto split: sum.splits)
next
  case False
  from token_cached[OF assms(1) False] assms False show ?thesis by auto
qed

lemma token_outcome_cases:
  assumes "HubSpaceAuth_token env self n = (res, self', n')"
  shows "(truthy (refresh_token self) \<and> \<not> is_expired env self (world n) \<and> self' = self \<and> n' = n
            \<and> (\<exists>td. token_data self = Some td \<and> now env (world n) < expiration td \<and> res = Inr (token td)))
       \<or> (truthy (refresh_token self) \<and> is_expired env self (world n)
            \<and> ((\<exists>e. generate_token env (refresh_token self) n = (Inl e, n') \<and> res = Inl e \<and> self' = self)
               \<or> (\<exists>td. generate_token env (refresh_token self) n = (Inr td, n') \<and> res = Inr (token td)
                     \<and> self' = self\<lparr>token_data := Some td\<rparr>)))
       \<or> (\<not> truthy (refresh_token self)
            \<and> ((\<exists>e. perform_initial_login env self n = (Inl e, n') \<and> res = Inl e \<and> self' = self)
               \<or> (\<exists>r n1. perform_initial_login env self n = (Inr r, n1)
                     \<and> ((is_expired env self (world n1)
                          \<and> ((\<exists>e. generate_token env r n1 = (Inl e, n') \<and> res = Inl e
                                 \<and> self' = self\<lparr>refresh_token := r\<rparr>)
                             \<or> (\<exists>td. generate_token env r n1 = (Inr td, n') \<and> res = Inr (token td)
                                 \<and> self' = self\<lparr>refresh_token := r, token_data := Some td\<rparr>)))
                        \<or> (\<not> is_expired env self (world n1) \<and> n' = n1
                            \<and> self' = self\<lparr>refresh_token := r\<rparr>
                            \<and> (\<exists>td. token_data self = Some td \<and> now env (world n1) < expiration td
                                  \<and> res = Inr (token td)))))))"
proof (cases "truthy (refresh_token self)")
  case True
  show ?thesis
  proof (cases "is_expired env self (world n)")
    case False
    from token_cached[OF True False] assms True False show ?thesis by auto
  next
    case e: True
    from token_refresh[OF True e] assms True e show ?thesis
      by (auto split: prod.splits sum.splits)
  qed
next
  case False
  from token_login[OF False, of env n] assms False show ?thesis
    by (auto simp: is_expired_def split: prod.splits sum.splits option.splits if_splits)
qed

lemma token_step_refresh_token:
  assumes "HubSpaceAuth_token env self n = (res, self', n')"
    and "truthy (refresh_token self)"
  shows "refresh_token self' = refresh_token self
       \<and> (\<exists>rs. sent n' = sent n @ rs \<and> (\<forall>rq\<in>set rs. is_refresh_exchange rq))"
proof -
  note step = token_with_refresh_token_step[OF assms(2,1)]
  show ?thesis
  proof (cases "is_expired env self (world n)")
    case True
    with step have "sent n' = sent n @ [refresh_post env (refresh_token self)]" by simp
    then have "\<exists>rs. sent n' = sent n @ rs \<and> (\<forall>rq\<in>set rs. is_refresh_exchange rq)"
      by (intro exI[of _ "[refresh_post env (refresh_token self)]"]) simp
    with step show ?thesis by simp
  next
    case False
    with step have "sent n' = sent n @ []" by simp
    then have "\<exists>rs. sent n' = sent n @ rs \<and> (\<forall>rq\<in>set rs. is_refresh_exchange rq)"
      by (intro exI[of _ "[]"]) simp
    with step show ?thesis by simp
  qed
qed

lemma token_calls_refresh_token:
  "token_calls env ticks self n = (self', n') \<Longrightarrow> truthy (refresh_token self) \<Longrightarrow>
     refresh_token self' = refresh_token self
   \<and> (\<exists>rs. sent n' = sent n @ rs \<and> (\<forall>rq\<in>set rs. is_refresh_exchange rq))"
proof (induction ticks arbitrary: self n)
  case Nil
  then show ?case by simp
next
  case (Cons tick ticks)
  obtain res s1 n1 where t: "HubSpaceAuth_token env self (n\<lparr>world := tick (world n)\<rparr>) = (res, s1, n1)"
    by (cases "HubSpaceAuth_token env self (n\<lparr>world := tick (world n)\<rparr>)") auto
  with Cons.prems have rest: "token_calls env ticks s1 n1 = (self', n')" by simp
  note step = token_step_refresh_token[OF t Cons.prems(2)]
  from step Cons.prems(2) have tr1: "truthy (refresh_token s1)" by simp
  note ih = Cons.IH[OF rest tr1]
  from step obtain rs1 where rs1: "sent n1 = sent n @ rs1" "\<forall>rq\<in>set rs1. is_refresh_exchange rq"
    by auto
  from ih obtain rs2 where rs2: "sent n' = sent n1 @ rs2" "\<forall>rq\<in>set rs2. is_refresh_exchange rq"
    by auto
  from rs1 rs2 have "\<exists>rs. sent n' = sent n @ rs \<and> (\<forall>rq\<in>set rs. is_refresh_exchange rq)"
    by (intro exI[of _ "rs1 @ rs2"]) auto
  with step ih show ?case by simp
qed

subsection \<open>The characters and bytes of the verifier\<close>

lemma alnum_iff:
  "alnum c \<longleftrightarrow>
     c \<in> set (''abcdefghijklmnopqrstuvwxyz'' @ ''ABCDEFGHIJKLMNOPQRSTUVWXYZ'' @ ''0123456789'')"
proof -
  let ?A = "set (''abcdefghijklmnopqrstuvwxyz'' @ ''ABCDEFGHIJKLMNOPQRSTUVWXYZ'' @ ''0123456789'')"
  have "c \<in> ?A \<longleftrightarrow> (of_char c :: nat) \<in> of_char ` ?A"
    by (rule inj_image_mem_iff [OF inj_of_char, symmetric])
  also have "\<dots> \<longleftrightarrow> alnum c"
    by (simp add: alnum_def Let_def) arith
  finally show ?thesis by simp
qed

lemma utf8_char_ascii: "(of_char c :: nat) < 128 \<Longrightarrow> map unat (utf8_char c) = [of_char c]"
  by (simp add: utf8_char_def Let_def unat_of_nat)

lemma alnum_ascii: "alnum c \<Longrightarrow> (of_char c :: nat) < 128"
  by (auto simp: alnum_def Let_def)

lemma encode_utf8_alnum:
  "\<forall>c\<in>set s. alnum c \<Longrightarrow> map unat (encode_utf8 s) = map of_char s"
  by (induction s) (simp_all add: encode_utf8_def utf8_char_ascii alnum_ascii)

lemma encode_utf8_alnum_ascii:
  "\<forall>c\<in>set s. alnum c \<Longrightarrow> \<forall>b\<in>set (encode_utf8 s). unat b < 128"
  by (induction s) (auto simp: encode_utf8_def utf8_char_def Let_def unat_of_nat dest: alnum_ascii)

subsection \<open>Runs against the scripted provider\<close>

lemma length_sample_entropy: "length sample_entropy = 40"
  by (simp add: sample_entropy_def)

lemma sample_verifier: "filter alnum (urlsafe_b64encode sample_entropy) = verifier sample_challenge"
  by (simp add: sample_entropy_def sample_challenge_def b64_char_def b64_alphabet_def alnum_def)

lemma sample_digest:
  "filter (\<lambda>c. c \<noteq> CHR ''='') (urlsafe_b64encode (sim_sha256 (encode_utf8 (verifier sample_challenge))))
     = challenge sample_challenge"
  by (simp add: sim_sha256_def sample_challenge_def encode_utf8_def utf8_char_def
        b64_char_def b64_alphabet_def)

lemma sim_generate_challenge_data:
  "generate_challenge_data sim_env
     \<lparr>sent = sn, world = \<lparr>clock = t, replies = rs, entropy = sample_entropy @ bs2\<rparr>\<rparr>
   = (sample_challenge, \<lparr>sent = sn, world = \<lparr>clock = t, replies = rs, entropy = bs2\<rparr>\<rparr>)"
  by (simp add: generate_challenge_data_def sim_env_def sim_urandom_def Let_def
        length_sample_entropy sample_verifier sample_digest)

lemma sim_webapp_login:
  "webapp_login sim_env self chal
     \<lparr>sent = sn, world = \<lparr>clock = t, replies = Inr (page_response ''login'')
        # Inr (redirect_response 302 (Some ''hubspace-app://loginredirect?code=ABC123'')) # rs, entropy = bs\<rparr>\<rparr>
   = (Inr ''ABC123'', \<lparr>sent = sn @ [login_page_get chal, credential_post sim_env self ''S'' ''E'' ''T''],
        world = \<lparr>clock = t + 2, replies = rs, entropy = bs\<rparr>\<rparr>)"
  by (simp add: webapp_login_eq generate_code_eq location_code_def lookup_def first_def
        request_def raise_for_status_def
        extract_login_data_def sim_env_def sim_send_def sim_find_id_def sim_query_def sim_parse_qs_def
        page_response_def redirect_response_def)

lemma sim_generate_refresh_token:
  "generate_refresh_token sim_env code chal
     \<lparr>sent = sn, world = \<lparr>clock = t,
        replies = Inr (json_response (JObject [(''refresh_token'', rt)])) # rs, entropy = bs\<rparr>\<rparr>
   = (Inr rt, \<lparr>sent = sn @ [code_exchange_post sim_env code chal],
        world = \<lparr>clock = t + 1, replies = rs, entropy = bs\<rparr>\<rparr>)"
  by (simp add: generate_refresh_token_eq request_def raise_for_status_def lookup_def
        sim_env_def sim_send_def json_response_def)

lemma sim_generate_token:
  "generate_token sim_env r
     \<lparr>sent = sn, world = \<lparr>clock = t,
        replies = Inr (json_response (JObject [(''id_token'', tok)])) # rs, entropy = bs\<rparr>\<rparr>
   = (Inr \<lparr>token = tok, expiration = t + 119\<rparr>, \<lparr>sent = sn @ [refresh_post sim_env r],
        world = \<lparr>clock = t + 1, replies = rs, entropy = bs\<rparr>\<rparr>)"
  by (simp add: generate_token_eq request_def raise_for_status_def TOKEN_TIMEOUT_def lookup_def
        sim_env_def sim_send_def json_response_def)

lemma sim_perform_initial_login:
  "perform_initial_login sim_env self
     \<lparr>sent = sn, world = \<lparr>clock = t, replies = map Inr (login_replies rt) @ rs,
        entropy = sample_entropy @ bs2\<rparr>\<rparr>
   = (Inr rt, \<lparr>sent = sn @ [login_page_get sample_challenge,
                              credential_post sim_env self ''S'' ''E'' ''T'',
                              code_exchange_post sim_env ''ABC123'' sample_challenge],
        world = \<lparr>clock = t + 3, replies = rs, entropy = bs2\<rparr>\<rparr>)"
  by (simp add: perform_initial_login_def login_replies_def sim_generate_challenge_data
        sim_webapp_login sim_generate_refresh_token)

lemma sim_send_next:
  "send sim_env rq (world (sim_net t (r # rs) bs))
     = (Inr r, \<lparr>clock = t + 1, replies = map Inr rs, entropy = bs\<rparr>)"
  by (simp add: sim_env_def sim_send_def sim_net_def)

lemma encode_utf8_sample:
  "encode_utf8 [CHR ''A'', CHR 0xE9, CHR 0x80, CHR 0xFF, CHR ''z''] = [65, 195, 169, 194, 128, 195, 191, 122]"
  by (simp add: encode_utf8_def utf8_char_def)

lemma sim_perform_initial_login_last:
  "perform_initial_login sim_env self
     \<lparr>sent = sn, world = \<lparr>clock = t, replies = Inr (page_response ''login'')
        # Inr (redirect_response 302 (Some ''hubspace-app://loginredirect?code=ABC123''))
        # Inr (json_response (JObject [(''refresh_token'', rt)])) # rs,
        entropy = sample_entropy\<rparr>\<rparr>
   = (Inr rt, \<lparr>sent = sn @ [login_page_get sample_challenge,
                              credential_post sim_env self ''S'' ''E'' ''T'',
                              code_exchange_post sim_env ''ABC123'' sample_challenge],
        world = \<lparr>clock = t + 3, replies = rs, entropy = []\<rparr>\<rparr>)"
  using sim_perform_initial_login [of self sn t rt rs "[]"]
  by (simp add: login_replies_def)

lemma sim_generate_token_rejected:
  "generate_token sim_env r
     \<lparr>sent = sn, world = \<lparr>clock = t, replies = Inr (redirect_response 401 None) # rs, entropy = bs\<rparr>\<rparr>
   = (Inl ClientResponseError, \<lparr>sent = sn @ [refresh_post sim_env r],
        world = \<lparr>clock = t + 1, replies = rs, entropy = bs\<rparr>\<rparr>)"
  by (simp add: generate_token_eq request_def raise_for_status_def
        sim_env_def sim_send_def redirect_response_def)

lemma now_sim_env: "now sim_env w = clock w"
  by (simp add: sim_env_def)

lemma sim_token_fresh:
  "HubSpaceAuth_token sim_env (cached JNull None)
     (sim_net 0 (login_replies (JString ''RT'') @ [json_response (JObject [(''id_token'', JString ''tok'')])])
        sample_entropy)
   = (Inr (JString ''tok''),
      cached (JString ''RT'') (Some \<lparr>token = JString ''tok'', expiration = 122\<rparr>),
      \<lparr>sent = [login_page_get sample_challenge,
               credential_post sim_env (cached JNull None) ''S'' ''E'' ''T'',
               code_exchange_post sim_env ''ABC123'' sample_challenge,
               refresh_post sim_env (JString ''RT'')],
       world = \<lparr>clock = 4, replies = [], entropy = []\<rparr>\<rparr>)"
  by (simp add: HubSpaceAuth_token_def is_expired_def cached_def sim_net_def
        login_replies_def sim_perform_initial_login_last sim_generate_token)

lemma sim_token_refresh:
  "HubSpaceAuth_token sim_env
     (cached (JString ''RT'') (Some \<lparr>token = JString ''old'', expiration = 10\<rparr>))
     (sim_net 500 [json_response (JObject [(''id_token'', JString ''new'')])] [])
   = (Inr (JString ''new''),
      cached (JString ''RT'') (Some \<lparr>token = JString ''new'', expiration = 619\<rparr>),
      \<lparr>sent = [refresh_post sim_env (JString ''RT'')],
       world = \<lparr>clock = 501, replies = [], entropy = []\<rparr>\<rparr>)"
  by (simp add: HubSpaceAuth_token_def is_expired_def cached_def sim_net_def
        sim_generate_token now_sim_env)

lemma sim_token_rejected:
  "HubSpaceAuth_token sim_env
     (cached (JString ''RT'') (Some \<lparr>token = JString ''old'', expiration = 10\<rparr>))
     (sim_net 500 [redirect_response 401 None] [])
   = (Inl ClientResponseError,
      cached (JString ''RT'') (Some \<lparr>token = JString ''old'', expiration = 10\<rparr>),
      \<lparr>sent = [refresh_post sim_env (JString ''RT'')],
       world = \<lparr>clock = 501, replies = [], entropy = []\<rparr>\<rparr>)"
  by (simp add: HubSpaceAuth_token_def is_expired_def cached_def sim_net_def
        sim_generate_token_rejected now_sim_env)

lemma sim_token_login_then_rejected:
  "\<not> truthy r0 \<Longrightarrow>
   HubSpaceAuth_token sim_env (cached r0 None)
     (sim_net 0 (login_replies rt @ [redirect_response 401 None]) sample_entropy)
   = (Inl ClientResponseError, cached rt None,
      \<lparr>sent = [login_page_get sample_challenge,
               credential_post sim_env (cached r0 None) ''S'' ''E'' ''T'',
               code_exchange_post sim_env ''ABC123'' sample_challenge,
               refresh_post sim_env rt],
       world = \<lparr>clock = 4, replies = [], entropy = []\<rparr>\<rparr>)"
  by (simp add: HubSpaceAuth_token_def is_expired_def cached_def sim_net_def
        login_replies_def sim_perform_initial_login_last sim_generate_token_rejected)

lemma sim_token_valid:
  "HubSpaceAuth_token sim_env
     (cached (JString ''RT'') (Some \<lparr>token = JString ''tok'', expiration = 122\<rparr>))
     \<lparr>sent = sn, world = \<lparr>clock = 100, replies = [], entropy = []\<rparr>\<rparr>
   = (Inr (JString ''tok''),
      cached (JString ''RT'') (Some \<lparr>token = JString ''tok'', expiration = 122\<rparr>),
      \<lparr>sent = sn, world = \<lparr>clock = 100, replies = [], entropy = []\<rparr>\<rparr>)"
  by (simp add: HubSpaceAuth_token_def is_expired_def cached_def now_sim_env)

lemma sim_token_fresh_blank:
  "HubSpaceAuth_token sim_env (cached JNull None)
     (sim_net 0 (login_replies (JString []) @ [json_response (JObject [(''id_token'', JString ''tok'')])]
                 @ login_replies rt2)
        (sample_entropy @ sample_entropy))
   = (Inr (JString ''tok''),
      cached (JString []) (Some \<lparr>token = JString ''tok'', expiration = 122\<rparr>),
      \<lparr>sent = [login_page_get sample_challenge,
               credential_post sim_env (cached JNull None) ''S'' ''E'' ''T'',
               code_exchange_post sim_env ''ABC123'' sample_challenge,
               refresh_post sim_env (JString [])],
       world = \<lparr>clock = 4, replies = map Inr (login_replies rt2),
                 entropy = sample_entropy\<rparr>\<rparr>)"
  using sim_perform_initial_login
          [of "cached JNull None" "[]" 0 "JString []"
              "Inr (json_response (JObject [(''id_token'', JString ''tok'')])) # map Inr (login_replies rt2)"
              sample_entropy]
  by (simp add: HubSpaceAuth_token_def is_expired_def sim_net_def sim_generate_token)
     (simp add: cached_def)

lemma sim_token_blank_again:
  "HubSpaceAuth_token sim_env
     (cached (JString []) (Some \<lparr>token = JString ''tok'', expiration = 122\<rparr>))
     \<lparr>sent = sn, world = \<lparr>clock = 4, replies = map Inr (login_replies rt2),
                       entropy = sample_entropy\<rparr>\<rparr>
   = (Inr (JString ''tok''),
      cached rt2 (Some \<lparr>token = JString ''tok'', expiration = 122\<rparr>),
      \<lparr>sent = sn @ [login_page_get sample_challenge,
                    credential_post sim_env
                      (cached (JString []) (Some \<lparr>token = JString ''tok'', expiration = 122\<rparr>))
                      ''S'' ''E'' ''T'',
                    code_exchange_post sim_env ''ABC123'' sample_challenge],
       world = \<lparr>clock = 7, replies = [], entropy = []\<rparr>\<rparr>)"
  using sim_perform_initial_login
          [of "cached (JString []) (Some \<lparr>token = JString ''tok'', expiration = 122\<rparr>)" sn 4 rt2 "[]" "[]"]
  by (simp add: HubSpaceAuth_token_def is_expired_def now_sim_env cached_def
        login_replies_def)

lemma init_cached: "init ''user'' ''secret'' = cached JNull None"
  by (simp add: init_def cached_def)

section \<open>The claims\<close>

text \<open>
  \<^bold>\<open>Claim C1\<close>, amended. When a non-empty string is cached as the refresh token, a call
  of \<^verbatim>\<open>token\<close> performs a refresh-token exchange exactly when the cached token is absent
  or its expiration is at or before the clock reading of the call: then the one request
  it sends is the refresh-token grant. Otherwise it returns the bearer string of the
  cached token, sends nothing and leaves the authenticator as it was. Hence, on a fresh
  authenticator, a first call that succeeds with a non-empty refresh token and a second
  call made less than \<open>TOKEN_TIMEOUT\<close> seconds after the token was issued send, together,
  the three requests of one login chain and one refresh-token exchange.
\<close>

theorem token_with_refresh_token:
  "(\<forall>r. refresh_token self = JString r \<longrightarrow> r \<noteq> [] \<longrightarrow>
      (is_expired env self (world n) \<longleftrightarrow>
         token_data self = None
         \<or> (\<exists>td. token_data self = Some td \<and> expiration td \<le> now env (world n)))
    \<and> (is_expired env self (world n) \<longrightarrow>
         sent (snd (snd (HubSpaceAuth_token env self n)))
           = sent n @ [refresh_post env (JString r)])
    \<and> (\<not> is_expired env self (world n) \<longrightarrow>
         (\<exists>td. token_data self = Some td
            \<and> HubSpaceAuth_token env self n = (Inr (token td), self, n))))
 \<and> (\<forall>u p b s1 n1 w2 r1.
      HubSpaceAuth_token env (init u p) n = (Inr b, s1, n1) \<longrightarrow>
      refresh_token s1 = JString r1 \<longrightarrow> r1 \<noteq> [] \<longrightarrow>
      now env w2 < now env (world n1) + TOKEN_TIMEOUT \<longrightarrow>
      HubSpaceAuth_token env s1 (n1\<lparr>world := w2\<rparr>) = (Inr b, s1, n1\<lparr>world := w2\<rparr>)
      \<and> (\<exists>chal sc ex tb code.
            sent n1 = sent n @ [login_page_get chal, credential_post env (init u p) sc ex tb,
                                code_exchange_post env code chal,
                                refresh_post env (JString r1)]))"
proof (intro conjI allI impI)
  fix r assume rs: "refresh_token self = JString r" "r \<noteq> []"
  then have r: "truthy (refresh_token self)" by simp
  show "is_expired env self (world n) \<longleftrightarrow>
         token_data self = None
         \<or> (\<exists>td. token_data self = Some td \<and> expiration td \<le> now env (world n))"
    by (rule is_expired_iff)
  obtain res self' n' where t: "HubSpaceAuth_token env self n = (res, self', n')"
    by (cases "HubSpaceAuth_token env self n") auto
  note step = token_with_refresh_token_step[OF r t]
  { assume "is_expired env self (world n)"
    with step t rs show "sent (snd (snd (HubSpaceAuth_token env self n)))
        = sent n @ [refresh_post env (JString r)]"
      by simp }
  { assume "\<not> is_expired env self (world n)"
    with step t show "\<exists>td. token_data self = Some td
            \<and> HubSpaceAuth_token env self n = (Inr (token td), self, n)"
      by auto }
next
  fix u p b s1 n1 w2 r1
  assume t: "HubSpaceAuth_token env (init u p) n = (Inr b, s1, n1)"
    and rs1: "refresh_token s1 = JString r1" "r1 \<noteq> []"
    and soon: "now env w2 < now env (world n1) + TOKEN_TIMEOUT"
  from rs1 have tr: "truthy (refresh_token s1)" by simp
  have nt: "\<not> truthy (refresh_token (init u p))" by (simp add: init_def)
  have ex: "\<And>w. is_expired env (init u p) w" by (simp add: init_def is_expired_def)
  obtain lr na where l: "perform_initial_login env (init u p) n = (lr, na)"
    by (cases "perform_initial_login env (init u p) n")
  from t token_login[OF nt, of env n] l ex obtain r where lr: "lr = Inr r"
    by (cases lr) auto
  obtain gr nb where g: "generate_token env r na = (gr, nb)"
    by (cases "generate_token env r na")
  from t token_login[OF nt, of env n] l lr ex g obtain td where
    gr: "gr = Inr td" and b: "b = token td" and nb: "nb = n1"
    and s1: "s1 = (init u p)\<lparr>refresh_token := r, token_data := Some td\<rparr>"
    by (cases gr) auto
  from generate_token_expiration g gr nb have e: "expiration td = now env (world n1) + TOKEN_TIMEOUT"
    by blast
  have "\<not> is_expired env s1 (world (n1\<lparr>world := w2\<rparr>))"
    using soon e s1 by (simp add: is_expired_def)
  from token_cached[OF tr this] s1 b
  show "HubSpaceAuth_token env s1 (n1\<lparr>world := w2\<rparr>) = (Inr b, s1, n1\<lparr>world := w2\<rparr>)"
    by auto
  have r1: "r = JString r1" using s1 rs1 by simp
  from perform_initial_login_sent[OF l] lr generate_token_sent[OF g] nb r1
  show "\<exists>chal sc ex tb code.
            sent n1 = sent n @ [login_page_get chal, credential_post env (init u p) sc ex tb,
                                code_exchange_post env code chal,
                                refresh_post env (JString r1)]"
    by auto
qed

text \<open>
  The theorem at work: an expired token is refreshed with one request, a valid one is
  returned without any, and the second call on a fresh authenticator sends nothing.
\<close>

theorem token_with_refresh_token_witness:
  "sent (snd (snd (HubSpaceAuth_token sim_env
       (cached (JString ''RT'') (Some \<lparr>token = JString ''old'', expiration = 10\<rparr>))
       (sim_net 500 [json_response (JObject [(''id_token'', JString ''new'')])] []))))
     = [refresh_post sim_env (JString ''RT'')]
   \<and> HubSpaceAuth_token sim_env
       (cached (JString ''RT'') (Some \<lparr>token = JString ''old'', expiration = 10\<rparr>))
       (sim_net 5 [] [])
     = (Inr (JString ''old''),
        cached (JString ''RT'') (Some \<lparr>token = JString ''old'', expiration = 10\<rparr>),
        sim_net 5 [] [])
   \<and> HubSpaceAuth_token sim_env
       (cached (JString ''RT'') (Some \<lparr>token = JString ''tok'', expiration = 122\<rparr>))
       \<lparr>sent = [login_page_get sample_challenge,
                credential_post sim_env (cached JNull None) ''S'' ''E'' ''T'',
                code_exchange_post sim_env ''ABC123'' sample_challenge,
                refresh_post sim_env (JString ''RT'')],
        world = \<lparr>clock = 100, replies = [], entropy = []\<rparr>\<rparr>
     = (Inr (JString ''tok''),
        cached (JString ''RT'') (Some \<lparr>token = JString ''tok'', expiration = 122\<rparr>),
        \<lparr>sent = [login_page_get sample_challenge,
                 credential_post sim_env (cached JNull None) ''S'' ''E'' ''T'',
                 code_exchange_post sim_env ''ABC123'' sample_challenge,
                 refresh_post sim_env (JString ''RT'')],
         world = \<lparr>clock = 100, replies = [], entropy = []\<rparr>\<rparr>)"
proof (intro conjI)
  let ?s = "cached (JString ''RT'') (Some \<lparr>token = JString ''old'', expiration = 10\<rparr>)"
  have rt: "refresh_token ?s = JString ''RT''"
    by (simp add: cached_def)
  have late: "is_expired sim_env ?s
      (world (sim_net 500 [json_response (JObject [(''id_token'', JString ''new'')])] []))"
    by (simp add: is_expired_def cached_def sim_net_def now_sim_env)
  have early: "\<not> is_expired sim_env ?s (world (sim_net 5 [] []))"
    by (simp add: is_expired_def cached_def sim_net_def now_sim_env)
  from token_with_refresh_token
         [of ?s sim_env "sim_net 500 [json_response (JObject [(''id_token'', JString ''new'')])] []"]
       rt late
  show "sent (snd (snd (HubSpaceAuth_token sim_env ?s
          (sim_net 500 [json_response (JObject [(''id_token'', JString ''new'')])] []))))
        = [refresh_post sim_env (JString ''RT'')]"
    by (simp add: sim_net_def rt)
  from token_with_refresh_token [of ?s sim_env "sim_net 5 [] []"] rt early
  show "HubSpaceAuth_token sim_env ?s (sim_net 5 [] [])
          = (Inr (JString ''old''), ?s, sim_net 5 [] [])"
    by (simp add: cached_def)
next
  let ?n0 = "sim_net 0 (login_replies (JString ''RT'')
                @ [json_response (JObject [(''id_token'', JString ''tok'')])]) sample_entropy"
  let ?s1 = "cached (JString ''RT'') (Some \<lparr>token = JString ''tok'', expiration = 122\<rparr>)"
  let ?sn = "[login_page_get sample_challenge,
               credential_post sim_env (cached JNull None) ''S'' ''E'' ''T'',
               code_exchange_post sim_env ''ABC123'' sample_challenge,
               refresh_post sim_env (JString ''RT'')]"
  let ?n1 = "\<lparr>sent = ?sn, world = \<lparr>clock = 4, replies = [], entropy = []\<rparr>\<rparr>"
  let ?w2 = "\<lparr>clock = 100, replies = [], entropy = []\<rparr>"
  have first: "HubSpaceAuth_token sim_env (init ''user'' ''secret'') ?n0
                 = (Inr (JString ''tok''), ?s1, ?n1)"
    by (simp only: init_cached sim_token_fresh)
  have tr: "refresh_token ?s1 = JString ''RT''" "''RT'' \<noteq> []"
    by (simp_all add: cached_def)
  have soon: "now sim_env ?w2 < now sim_env (world ?n1) + TOKEN_TIMEOUT"
    by (simp add: now_sim_env TOKEN_TIMEOUT_def)
  from token_with_refresh_token [of ?s1 sim_env ?n0, THEN conjunct2, rule_format, OF first tr soon]
  show "HubSpaceAuth_token sim_env ?s1 \<lparr>sent = ?sn, world = ?w2\<rparr>
          = (Inr (JString ''tok''), ?s1, \<lparr>sent = ?sn, world = ?w2\<rparr>)"
    by simp
qed

text \<open>
  Claim C1 as stated speaks of every cached refresh token. A provider that hands out the
  empty string leaves it cached (it is not \<^verbatim>\<open>None\<close>) next to a token that has not
  expired, and \<^verbatim>\<open>not self._refresh_token\<close> holds of it: the second of two calls in
  immediate succession on a fresh authenticator runs the whole login chain again before
  it returns the cached bearer string.
\<close>

theorem token_blank_refresh_token_counterexample:
  "HubSpaceAuth_token sim_env (cached JNull None)
     (sim_net 0 (login_replies (JString []) @ [json_response (JObject [(''id_token'', JString ''tok'')])]
                 @ login_replies (JString ''RT2''))
        (sample_entropy @ sample_entropy))
   = (Inr (JString ''tok''),
      cached (JString []) (Some \<lparr>token = JString ''tok'', expiration = 122\<rparr>),
      \<lparr>sent = [login_page_get sample_challenge,
               credential_post sim_env (cached JNull None) ''S'' ''E'' ''T'',
               code_exchange_post sim_env ''ABC123'' sample_challenge,
               refresh_post sim_env (JString [])],
       world = \<lparr>clock = 4, replies = map Inr (login_replies (JString ''RT2'')),
                 entropy = sample_entropy\<rparr>\<rparr>)
   \<and> refresh_token (cached (JString []) (Some \<lparr>token = JString ''tok'', expiration = 122\<rparr>))
       \<noteq> JNull
   \<and> \<not> is_expired sim_env
         (cached (JString []) (Some \<lparr>token = JString ''tok'', expiration = 122\<rparr>))
         \<lparr>clock = 4, replies = map Inr (login_replies (JString ''RT2'')),
           entropy = sample_entropy\<rparr>
   \<and> HubSpaceAuth_token sim_env
       (cached (JString []) (Some \<lparr>token = JString ''tok'', expiration = 122\<rparr>))
       \<lparr>sent = [login_page_get sample_challenge,
                credential_post sim_env (cached JNull None) ''S'' ''E'' ''T'',
                code_exchange_post sim_env ''ABC123'' sample_challenge,
                refresh_post sim_env (JString [])],
        world = \<lparr>clock = 4, replies = map Inr (login_replies (JString ''RT2'')),
                  entropy = sample_entropy\<rparr>\<rparr>
     = (Inr (JString ''tok''),
        cached (JString ''RT2'') (Some \<lparr>token = JString ''tok'', expiration = 122\<rparr>),
        \<lparr>sent = [login_page_get sample_challenge,
                 credential_post sim_env (cached JNull None) ''S'' ''E'' ''T'',
                 code_exchange_post sim_env ''ABC123'' sample_challenge,
                 refresh_post sim_env (JString []),
                 login_page_get sample_challenge,
                 credential_post sim_env
                   (cached (JString []) (Some \<lparr>token = JString ''tok'', expiration = 122\<rparr>))
                   ''S'' ''E'' ''T'',
                 code_exchange_post sim_env ''ABC123'' sample_challenge],
         world = \<lparr>clock = 7, replies = [], entropy = []\<rparr>\<rparr>)"
proof (intro conjI)
  show "HubSpaceAuth_token sim_env (cached JNull None)
     (sim_net 0 (login_replies (JString []) @ [json_response (JObject [(''id_token'', JString ''tok'')])]
                 @ login_replies (JString ''RT2''))
        (sample_entropy @ sample_entropy))
   = (Inr (JString ''tok''),
      cached (JString []) (Some \<lparr>token = JString ''tok'', expiration = 122\<rparr>),
      \<lparr>sent = [login_page_get sample_challenge,
               credential_post sim_env (cached JNull None) ''S'' ''E'' ''T'',
               code_exchange_post sim_env ''ABC123'' sample_challenge,
               refresh_post sim_env (JString [])],
       world = \<lparr>clock = 4, replies = map Inr (login_replies (JString ''RT2'')),
                 entropy = sample_entropy\<rparr>\<rparr>)"
    by (rule sim_token_fresh_blank)
  show "refresh_token (cached (JString []) (Some \<lparr>token = JString ''tok'', expiration = 122\<rparr>))
       \<noteq> JNull"
    by (simp add: cached_def)
  show "\<not> is_expired sim_env
         (cached (JString []) (Some \<lparr>token = JString ''tok'', expiration = 122\<rparr>))
         \<lparr>clock = 4, replies = map Inr (login_replies (JString ''RT2'')),
           entropy = sample_entropy\<rparr>"
    by (simp add: cached_def is_expired_def now_sim_env)
  show "HubSpaceAuth_token sim_env
       (cached (JString []) (Some \<lparr>token = JString ''tok'', expiration = 122\<rparr>))
       \<lparr>sent = [login_page_get sample_challenge,
                credential_post sim_env (cached JNull None) ''S'' ''E'' ''T'',
                code_exchange_post sim_env ''ABC123'' sample_challenge,
                refresh_post sim_env (JString [])],
        world = \<lparr>clock = 4, replies = map Inr (login_replies (JString ''RT2'')),
                  entropy = sample_entropy\<rparr>\<rparr>
     = (Inr (JString ''tok''),
        cached (JString ''RT2'') (Some \<lparr>token = JString ''tok'', expiration = 122\<rparr>),
        \<lparr>sent = [login_page_get sample_challenge,
                 credential_post sim_env (cached JNull None) ''S'' ''E'' ''T'',
                 code_exchange_post sim_env ''ABC123'' sample_challenge,
                 refresh_post sim_env (JString []),
                 login_page_get sample_challenge,
                 credential_post sim_env
                   (cached (JString []) (Some \<lparr>token = JString ''tok'', expiration = 122\<rparr>))
                   ''S'' ''E'' ''T'',
                 code_exchange_post sim_env ''ABC123'' sample_challenge],
         world = \<lparr>clock = 7, replies = [], entropy = []\<rparr>\<rparr>)"
    using sim_token_blank_again
            [of "[login_page_get sample_challenge,
                  credential_post sim_env (cached JNull None) ''S'' ''E'' ''T'',
                  code_exchange_post sim_env ''ABC123'' sample_challenge,
                  refresh_post sim_env (JString [])]" "JString ''RT2''"]
    by simp
qed

text \<open>
  \<^bold>\<open>Claim C2\<close>, amended. Whatever response the credential POST receives: a status other
  than 302 raises \<^verbatim>\<open>InvalidResponse\<close>; with status 302 and a \<^verbatim>\<open>Location\<close> header that
  \<^verbatim>\<open>urlparse\<close> and \<^verbatim>\<open>parse_qs\<close> accept, a \<^verbatim>\<open>code\<close> parameter in the query string makes the
  submitter return its value and the lack of one makes it raise \<^verbatim>\<open>InvalidAuth\<close>, which is
  not \<^verbatim>\<open>InvalidResponse\<close>.
\<close>

theorem generate_code_outcome:
  assumes "send env (credential_post env self sc ex tb) (world n) = (Inr resp, w')"
  shows "(status resp \<noteq> 302 \<longrightarrow>
            fst (generate_code env self sc ex tb n) = Inl InvalidResponse)
       \<and> (\<forall>loc query qs code rest.
            status resp = 302 \<longrightarrow> headers resp ''location'' = Some loc \<longrightarrow>
            urlparse_query env loc = Inr query \<longrightarrow> parse_qs env query = Inr qs \<longrightarrow>
            qs ''code'' = Some (code # rest) \<longrightarrow>
            fst (generate_code env self sc ex tb n) = Inr code)
       \<and> (\<forall>loc query qs.
            status resp = 302 \<longrightarrow> headers resp ''location'' = Some loc \<longrightarrow>
            urlparse_query env loc = Inr query \<longrightarrow> parse_qs env query = Inr qs \<longrightarrow>
            qs ''code'' = None \<longrightarrow>
            fst (generate_code env self sc ex tb n) = Inl InvalidAuth)
       \<and> InvalidAuth \<noteq> InvalidResponse"
  using assms
  by (simp add: generate_code_eq request_def location_code_def lookup_def first_def)

text \<open>
  A redirect that carries \<^verbatim>\<open>code=ABC123\<close>, one without a code, and a status of 200.
\<close>

theorem generate_code_outcome_witness:
  "fst (generate_code sim_env (init ''u'' ''p'') ''S'' ''E'' ''T''
          (sim_net 0 [redirect_response 302 (Some ''hubspace-app://loginredirect?code=ABC123'')] []))
     = Inr ''ABC123''
   \<and> fst (generate_code sim_env (init ''u'' ''p'') ''S'' ''E'' ''T''
          (sim_net 0 [redirect_response 302 (Some ''hubspace-app://loginredirect?error=denied'')] []))
     = Inl InvalidAuth
   \<and> fst (generate_code sim_env (init ''u'' ''p'') ''S'' ''E'' ''T''
          (sim_net 0 [redirect_response 200 (Some ''hubspace-app://loginredirect?code=ABC123'')] []))
     = Inl InvalidResponse"
  using generate_code_outcome [where self = "init ''u'' ''p''" and sc = "''S''" and ex = "''E''"
          and tb = "''T''" and n = "sim_net 0 [redirect_response 302 (Some ''hubspace-app://loginredirect?code=ABC123'')] []", OF sim_send_next]
        generate_code_outcome [where self = "init ''u'' ''p''" and sc = "''S''" and ex = "''E''"
          and tb = "''T''" and n = "sim_net 0 [redirect_response 302 (Some ''hubspace-app://loginredirect?error=denied'')] []", OF sim_send_next]
        generate_code_outcome [where self = "init ''u'' ''p''" and sc = "''S''" and ex = "''E''"
          and tb = "''T''" and n = "sim_net 0 [redirect_response 200 (Some ''hubspace-app://loginredirect?code=ABC123'')] []", OF sim_send_next]
  by (simp add: redirect_response_def sim_env_def sim_query_def sim_parse_qs_def)

text \<open>
  Claim C2 as stated covers every 302 response. The handler of \<^verbatim>\<open>generate_code\<close> catches
  \<^verbatim>\<open>KeyError\<close> only: a \<^verbatim>\<open>Location\<close> that \<^verbatim>\<open>urlparse\<close> refuses, here a host with an unclosed
  bracket and no code, raises \<^verbatim>\<open>ValueError\<close> and not \<^verbatim>\<open>InvalidAuth\<close>.
\<close>

theorem generate_code_malformed_location_counterexample:
  "status (redirect_response 302 (Some ''hubspace-app://[bad'')) = 302
   \<and> headers (redirect_response 302 (Some ''hubspace-app://[bad'')) ''location''
       = Some ''hubspace-app://[bad''
   \<and> fst (generate_code sim_env (init ''u'' ''p'') ''S'' ''E'' ''T''
          (sim_net 0 [redirect_response 302 (Some ''hubspace-app://[bad'')] []))
     = Inl ValueError"
  by (simp add: generate_code_eq request_def location_code_def lookup_def sim_send_next
        redirect_response_def)
     (simp add: sim_env_def sim_query_def)




text \<open>
  \<^bold>\<open>Claim C4\<close>. The token cache changes only when the refresh-token exchange of the call
  has succeeded, and then the call succeeds; the refresh-token cache changes only when
  the login chain of the call has succeeded, and then it holds what the chain returned.
  A call that raises has failed in the login chain, and the authenticator is as it
  was; or in the token exchange, and the authenticator is as it was before that
  exchange: unchanged, or with the refresh token that the login chain of this call has
  just returned. The cached token is never touched by a failing call.
\<close>

theorem token_failure_keeps_caches:
  "HubSpaceAuth_token env self n = (res, self', n') \<Longrightarrow>
     (token_data self' \<noteq> token_data self \<longrightarrow>
        (\<exists>n1 td. generate_token env (refresh_token self') n1 = (Inr td, n')
           \<and> token_data self' = Some td \<and> res = Inr (token td)))
   \<and> (refresh_token self' \<noteq> refresh_token self \<longrightarrow>
        \<not> truthy (refresh_token self)
        \<and> (\<exists>n1. perform_initial_login env self n = (Inr (refresh_token self'), n1)))
   \<and> (\<forall>e. res = Inl e \<longrightarrow>
        token_data self' = token_data self
        \<and> ((perform_initial_login env self n = (Inl e, n') \<and> self' = self)
           \<or> (generate_token env (refresh_token self) n = (Inl e, n') \<and> self' = self)
           \<or> (\<exists>r n1. perform_initial_login env self n = (Inr r, n1)
                 \<and> generate_token env r n1 = (Inl e, n')
                 \<and> self' = self\<lparr>refresh_token := r\<rparr>)))
   \<and> username self' = username self \<and> password self' = password self"
  by (drule token_outcome_cases) (elim disjE conjE exE; simp; blast?)

text \<open>
  A refresh that the provider rejects keeps the stale token and the refresh token; a
  first login whose token exchange is rejected keeps the refresh token just obtained,
  also when the provider answered \<^verbatim>\<open>null\<close> for it.
\<close>

theorem token_failure_keeps_caches_witness:
  "fst (HubSpaceAuth_token sim_env
          (cached (JString ''RT'') (Some \<lparr>token = JString ''old'', expiration = 10\<rparr>))
          (sim_net 500 [redirect_response 401 None] [])) = Inl ClientResponseError
   \<and> fst (snd (HubSpaceAuth_token sim_env
          (cached (JString ''RT'') (Some \<lparr>token = JString ''old'', expiration = 10\<rparr>))
          (sim_net 500 [redirect_response 401 None] [])))
       = cached (JString ''RT'') (Some \<lparr>token = JString ''old'', expiration = 10\<rparr>)
   \<and> fst (snd (HubSpaceAuth_token sim_env (cached JNull None)
          (sim_net 0 (login_replies (JString ''RT'') @ [redirect_response 401 None]) sample_entropy)))
       = cached (JString ''RT'') None
   \<and> fst (snd (HubSpaceAuth_token sim_env (cached (JString []) None)
          (sim_net 0 (login_replies JNull @ [redirect_response 401 None]) sample_entropy)))
       = cached JNull None"
proof -
  have nn: "\<not> truthy JNull" and nb: "\<not> truthy (JString [])" by simp_all
  note a = token_failure_keeps_caches [OF sim_token_rejected]
  note b = token_failure_keeps_caches [OF sim_token_login_then_rejected [OF nn, of "JString ''RT''"]]
  note c = token_failure_keeps_caches [OF sim_token_login_then_rejected [OF nb, of JNull]]
  from a b c show ?thesis
    by (simp add: sim_token_rejected sim_token_login_then_rejected)
qed

text \<open>
  \<^bold>\<open>Claim C5\<close>, amended. For a page that BeautifulSoup parses: if there is no element
  \<^verbatim>\<open>kc-form-login\<close>, or it has no \<^verbatim>\<open>action\<close>, extraction raises \<^verbatim>\<open>InvalidResponse\<close>; if the
  \<^verbatim>\<open>action\<close> is a URL that \<^verbatim>\<open>urlparse\<close> and \<^verbatim>\<open>parse_qs\<close> accept, extraction returns the values
  of \<^verbatim>\<open>session_code\<close>, \<^verbatim>\<open>execution\<close> and \<^verbatim>\<open>tab_id\<close> of its query string when all three are
  there, and raises \<^verbatim>\<open>InvalidResponse\<close> when one is missing.
\<close>

theorem extract_login_data_outcome:
  "(\<forall>form u query login_data sc scs ex exs tb tbs.
      soup_find_id env page ''kc-form-login'' = Inr (Some form) \<longrightarrow>
      attrs form ''action'' = Some u \<longrightarrow>
      urlparse_query env u = Inr query \<longrightarrow> parse_qs env query = Inr login_data \<longrightarrow>
      login_data ''session_code'' = Some (sc # scs) \<longrightarrow>
      login_data ''execution'' = Some (ex # exs) \<longrightarrow>
      login_data ''tab_id'' = Some (tb # tbs) \<longrightarrow>
      extract_login_data env page = Inr \<lparr>session_code = sc, execution = ex, tab_id = tb\<rparr>)
 \<and> (soup_find_id env page ''kc-form-login'' = Inr None \<longrightarrow>
      extract_login_data env page = Inl InvalidResponse)
 \<and> (\<forall>form. soup_find_id env page ''kc-form-login'' = Inr (Some form) \<longrightarrow>
      attrs form ''action'' = None \<longrightarrow>
      extract_login_data env page = Inl InvalidResponse)
 \<and> (\<forall>form u query login_data k.
      soup_find_id env page ''kc-form-login'' = Inr (Some form) \<longrightarrow>
      attrs form ''action'' = Some u \<longrightarrow>
      urlparse_query env u = Inr query \<longrightarrow> parse_qs env query = Inr login_data \<longrightarrow>
      k \<in> {''session_code'', ''execution'', ''tab_id''} \<longrightarrow>
      login_data k = None \<longrightarrow>
      extract_login_data env page = Inl InvalidResponse)"
  by (auto simp: extract_login_data_def split: option.splits list.splits)

text \<open>
  A login page, a page without the form, a form without action, and an action with
  one key only.
\<close>

theorem extract_login_data_outcome_witness:
  "extract_login_data sim_env ''login'' = Inr \<lparr>session_code = ''S'', execution = ''E'', tab_id = ''T''\<rparr>
   \<and> extract_login_data sim_env ''maintenance'' = Inl InvalidResponse
   \<and> extract_login_data sim_env ''bare'' = Inl InvalidResponse
   \<and> extract_login_data sim_env ''short'' = Inl InvalidResponse"
  using extract_login_data_outcome [of sim_env "''login''"]
        extract_login_data_outcome [of sim_env "''maintenance''"]
        extract_login_data_outcome [of sim_env "''bare''"]
        extract_login_data_outcome [of sim_env "''short''"]
  by (simp add: sim_env_def sim_find_id_def sim_query_def sim_parse_qs_def)

text \<open>
  Claim C5 as stated covers every page. \<^verbatim>\<open>urlparse(login_url)\<close> stands outside the
  \<^verbatim>\<open>try\<close> blocks: a form whose action \<^verbatim>\<open>urlparse\<close> refuses raises \<^verbatim>\<open>ValueError\<close>, neither
  the three values nor \<^verbatim>\<open>InvalidResponse\<close>.
\<close>

theorem extract_login_data_malformed_action_counterexample:
  "soup_find_id sim_env ''broken'' ''kc-form-login'' = Inr (Some \<lparr>attrs = [''action'' \<mapsto> ''//[bad'']\<rparr>)
   \<and> extract_login_data sim_env ''broken'' = Inl ValueError"
  by (simp add: extract_login_data_def sim_env_def sim_find_id_def sim_query_def)

text \<open>
  \<^bold>\<open>Claim C6\<close>. The verifier is the base64url text of the 40 random bytes with
  everything but the 62 letters and digits removed. The challenge is the base64url text,
  with every \<^verbatim>\<open>=\<close> removed, of the SHA-256 digest of the verifier's UTF-8 bytes, which are
  the codes of its characters, one byte below 128 for each. Two runs with the same
  verifier yield the same challenge.
\<close>

theorem generate_challenge_data_pkce:
  "generate_challenge_data env n = (chal, n') \<Longrightarrow>
     set (verifier chal)
       \<subseteq> set (''abcdefghijklmnopqrstuvwxyz'' @ ''ABCDEFGHIJKLMNOPQRSTUVWXYZ'' @ ''0123456789'')
   \<and> verifier chal
       = filter (\<lambda>c. c \<in> set (''abcdefghijklmnopqrstuvwxyz'' @ ''ABCDEFGHIJKLMNOPQRSTUVWXYZ''
                                 @ ''0123456789''))
           (urlsafe_b64encode (fst (urandom env 40 (world n))))
   \<and> (\<exists>bytes. map unat bytes = map of_char (verifier chal)
         \<and> (\<forall>b\<in>set bytes. unat b < 128)
         \<and> challenge chal
             = filter (\<lambda>c. c \<noteq> CHR ''='') (urlsafe_b64encode (sha256 env bytes)))
   \<and> CHR ''='' \<notin> set (challenge chal)
   \<and> (\<forall>m chal' m'. generate_challenge_data env m = (chal', m') \<longrightarrow>
         verifier chal' = verifier chal \<longrightarrow> challenge chal' = challenge chal)"
proof -
  assume g: "generate_challenge_data env n = (chal, n')"
  let ?v = "filter alnum (urlsafe_b64encode (fst (urandom env 40 (world n))))"
  from g have v: "verifier chal = ?v"
    and c: "challenge chal
              = filter (\<lambda>c. c \<noteq> CHR ''='') (urlsafe_b64encode (sha256 env (encode_utf8 ?v)))"
    by (auto simp: generate_challenge_data_def Let_def split: prod.splits)
  have al: "\<forall>c\<in>set (verifier chal). alnum c" by (simp add: v)
  have 1: "set (verifier chal)
       \<subseteq> set (''abcdefghijklmnopqrstuvwxyz'' @ ''ABCDEFGHIJKLMNOPQRSTUVWXYZ'' @ ''0123456789'')"
    using al by (auto simp only: alnum_iff)
  have 2: "verifier chal
       = filter (\<lambda>c. c \<in> set (''abcdefghijklmnopqrstuvwxyz'' @ ''ABCDEFGHIJKLMNOPQRSTUVWXYZ''
                                 @ ''0123456789''))
           (urlsafe_b64encode (fst (urandom env 40 (world n))))"
    unfolding v by (rule filter_cong [OF refl]) (rule alnum_iff)
  have 3: "\<exists>bytes. map unat bytes = map of_char (verifier chal)
         \<and> (\<forall>b\<in>set bytes. unat b < 128)
         \<and> challenge chal
             = filter (\<lambda>c. c \<noteq> CHR ''='') (urlsafe_b64encode (sha256 env bytes))"
    using encode_utf8_alnum [OF al] encode_utf8_alnum_ascii [OF al] c v
    by (intro exI [of _ "encode_utf8 (verifier chal)"]) simp
  have 4: "CHR ''='' \<notin> set (challenge chal)" by (simp add: c)
  have 5: "\<forall>m chal' m'. generate_challenge_data env m = (chal', m') \<longrightarrow>
         verifier chal' = verifier chal \<longrightarrow> challenge chal' = challenge chal"
    using g by (auto simp: generate_challenge_data_def Let_def split: prod.splits)
  from 1 2 3 4 5 show ?thesis by blast
qed

text \<open>
  Forty sample bytes, whose encoding contains \<^verbatim>\<open>-\<close>, \<^verbatim>\<open>_\<close> and \<^verbatim>\<open>=\<close>; verifier, digest and
  challenge are those that Python computes, and so are the UTF-8 bytes of a string with
  characters from 128 on.
\<close>

theorem generate_challenge_data_pkce_witness:
  "list_all alnum ''AAECAwQFBgcICQoLDA0ODxAREhMUFRYXGBkaGxwdHh8gISIjJA''
   \<and> fst (generate_challenge_data sim_env (sim_net 0 [] sample_entropy))
      = \<lparr>challenge = ''tubxcV0G2q4lGaNdWZPdkvIEkowN3OAY-vSs8YF9FNw'',
         verifier = ''AAECAwQFBgcICQoLDA0ODxAREhMUFRYXGBkaGxwdHh8gISIjJA''\<rparr>
   \<and> encode_utf8 [CHR ''A'', CHR 0xE9, CHR 0x80, CHR 0xFF, CHR ''z'']
      = [65, 195, 169, 194, 128, 195, 191, 122]"
proof -
  have h: "generate_challenge_data sim_env (sim_net 0 [] sample_entropy)
             = (sample_challenge, sim_net 0 [] [])"
    using sim_generate_challenge_data [of "[]" 0 "[]" "[]"] by (simp add: sim_net_def)
  from generate_challenge_data_pkce [OF h, THEN conjunct1] h show ?thesis
    by (simp add: sample_challenge_def list_all_iff alnum_iff subset_iff encode_utf8_sample)
qed

text \<open>
  \<^bold>\<open>Claim C7\<close>, amended. Over any sequence of calls, once the cached refresh token is a
  non-empty string it stays that string, neither cleared nor replaced, and no request of
  the login chain is sent again: every request from then on is a POST of the
  refresh-token grant to the token endpoint.
\<close>

theorem refresh_token_kept:
  "token_calls env ticks self n = (self', n') \<Longrightarrow>
   refresh_token self = JString r \<Longrightarrow> r \<noteq> [] \<Longrightarrow>
     refresh_token self' = JString r
   \<and> (\<exists>rs. sent n' = sent n @ rs
         \<and> (\<forall>rq\<in>set rs. http_method rq = POST \<and> url rq = HUBSPACE_TOKEN_URL
               \<and> map_of (data rq) ''grant_type'' = Some (JString ''refresh_token'')))"
  using token_calls_refresh_token [of env ticks self n self' n']
  by (simp add: is_refresh_exchange_def)

text \<open>
  Two calls, the second after the token has expired: the refresh token stays and both
  requests are refresh-token exchanges.
\<close>

theorem refresh_token_kept_witness:
  "refresh_token (fst (token_calls sim_env [id, \<lambda>w. w\<lparr>clock := 500\<rparr>]
        (cached (JString ''RT'') None)
        (sim_net 0 [json_response (JObject [(''id_token'', JString ''t1'')]),
                    json_response (JObject [(''id_token'', JString ''t2'')])] [])))
      = JString ''RT''
   \<and> list_all is_refresh_exchange
        (sent (snd (token_calls sim_env [id, \<lambda>w. w\<lparr>clock := 500\<rparr>]
        (cached (JString ''RT'') None)
        (sim_net 0 [json_response (JObject [(''id_token'', JString ''t1'')]),
                    json_response (JObject [(''id_token'', JString ''t2'')])] []))))"
proof -
  let ?c = "token_calls sim_env [id, \<lambda>w. w\<lparr>clock := 500\<rparr>] (cached (JString ''RT'') None)
        (sim_net 0 [json_response (JObject [(''id_token'', JString ''t1'')]),
                    json_response (JObject [(''id_token'', JString ''t2'')])] [])"
  have rt: "refresh_token (cached (JString ''RT'') None) = JString ''RT''" "''RT'' \<noteq> []"
    by (simp_all add: cached_def)
  have h: "?c = (fst ?c, snd ?c)" by simp
  from refresh_token_kept [OF h rt] show ?thesis
    by (auto simp: sim_net_def list_all_iff is_refresh_exchange_def)
qed

text \<open>
  Claim C7 as stated starts from a refresh token that is not null. A provider that
  hands out the empty string leaves a cached refresh token that the next call takes
  for a missing one: the second call runs the login chain again, and when that chain
  is answered \<^verbatim>\<open>{"refresh_token": null}\<close> the cache is back to \<^verbatim>\<open>None\<close>.
\<close>

theorem refresh_token_relogin_counterexample:
  "refresh_token (fst (token_calls sim_env [id] (cached JNull None)
       (sim_net 0 (login_replies (JString [])
                   @ [json_response (JObject [(''id_token'', JString ''tok'')])] @ login_replies JNull)
          (sample_entropy @ sample_entropy)))) = JString []
   \<and> JString [] \<noteq> JNull
   \<and> refresh_token (fst (token_calls sim_env [id, id] (cached JNull None)
       (sim_net 0 (login_replies (JString [])
                   @ [json_response (JObject [(''id_token'', JString ''tok'')])] @ login_replies JNull)
          (sample_entropy @ sample_entropy)))) = JNull
   \<and> filter is_login_page_get (sent (snd (token_calls sim_env [id, id] (cached JNull None)
       (sim_net 0 (login_replies (JString [])
                   @ [json_response (JObject [(''id_token'', JString ''tok'')])] @ login_replies JNull)
          (sample_entropy @ sample_entropy)))))
      = [login_page_get sample_challenge, login_page_get sample_challenge]"
proof -
  let ?n0 = "sim_net 0 (login_replies (JString [])
                   @ [json_response (JObject [(''id_token'', JString ''tok'')])] @ login_replies JNull)
          (sample_entropy @ sample_entropy)"
  let ?s1 = "cached (JString []) (Some \<lparr>token = JString ''tok'', expiration = 122\<rparr>)"
  let ?sn1 = "[login_page_get sample_challenge,
               credential_post sim_env (cached JNull None) ''S'' ''E'' ''T'',
               code_exchange_post sim_env ''ABC123'' sample_challenge,
               refresh_post sim_env (JString [])]"
  let ?n1 = "\<lparr>sent = ?sn1, world = \<lparr>clock = 4, replies = map Inr (login_replies JNull),
                 entropy = sample_entropy\<rparr>\<rparr>"
  have c1: "HubSpaceAuth_token sim_env (cached JNull None) ?n0 = (Inr (JString ''tok''), ?s1, ?n1)"
    by (rule sim_token_fresh_blank)
  have c2: "HubSpaceAuth_token sim_env ?s1 ?n1
             = (Inr (JString ''tok''),
                cached JNull (Some \<lparr>token = JString ''tok'', expiration = 122\<rparr>),
                \<lparr>sent = ?sn1 @ [login_page_get sample_challenge,
                                 credential_post sim_env ?s1 ''S'' ''E'' ''T'',
                                 code_exchange_post sim_env ''ABC123'' sample_challenge],
                 world = \<lparr>clock = 7, replies = [], entropy = []\<rparr>\<rparr>)"
    by (rule sim_token_blank_again)
  have g: "is_login_page_get (login_page_get chal)"
       "\<not> is_login_page_get (credential_post env self sc ex tb)"
       "\<not> is_login_page_get (code_exchange_post env code chal)"
       "\<not> is_login_page_get (refresh_post env r)" for chal env self sc ex tb code r
    by (simp_all add: is_login_page_get_def login_page_get_def credential_post_def
          code_exchange_post_def refresh_post_def)
  from c1 c2 show ?thesis
    by (simp add: g) (simp add: cached_def)
qed

text \<open>
  \<^bold>\<open>Claim C8\<close>. When a call returns a bearer string, it is the one of the only cached
  token, and that token is not past its expiration on the clock the call leaves behind:
  either it is the token cached before, which the check found unexpired, or it was
  issued by the refresh-token exchange of this call and expires 118 seconds later. The
  whole call is one step of the model, as the lock makes it.
\<close>

theorem token_returned_not_expired:
  "HubSpaceAuth_token env self n = (Inr b, self', n') \<Longrightarrow>
     \<exists>td. token_data self' = Some td \<and> token td = b
        \<and> now env (world n') < expiration td
        \<and> (token_data self' = token_data self
           \<or> (\<exists>r n1. generate_token env r n1 = (Inr td, n')
                 \<and> expiration td = now env (world n') + TOKEN_TIMEOUT))"
  by (drule token_outcome_cases)
     (elim disjE conjE exE; (simp; fail)?;
      frule generate_token_expiration; simp add: TOKEN_TIMEOUT_def; blast?)

text \<open>
  A token that expired at second 10 is replaced at second 501 before it is returned.
\<close>

theorem token_returned_not_expired_witness:
  "fst (HubSpaceAuth_token sim_env
          (cached (JString ''RT'') (Some \<lparr>token = JString ''old'', expiration = 10\<rparr>))
          (sim_net 500 [json_response (JObject [(''id_token'', JString ''new'')])] []))
     = Inr (JString ''new'')
   \<and> (\<exists>td. token_data (fst (snd (HubSpaceAuth_token sim_env
                (cached (JString ''RT'') (Some \<lparr>token = JString ''old'', expiration = 10\<rparr>))
                (sim_net 500 [json_response (JObject [(''id_token'', JString ''new'')])] []))))
              = Some td
          \<and> token td = JString ''new'' \<and> expiration td = 619
          \<and> now sim_env (world (snd (snd (HubSpaceAuth_token sim_env
                (cached (JString ''RT'') (Some \<lparr>token = JString ''old'', expiration = 10\<rparr>))
                (sim_net 500 [json_response (JObject [(''id_token'', JString ''new'')])] [])))))
              < expiration td)"
  using token_returned_not_expired [OF sim_token_refresh]
  by (simp add: sim_token_refresh) (simp add: cached_def)

text \<open>
  \<^bold>\<open>Claim C10\<close>. A 302 response without any \<^verbatim>\<open>Location\<close> header makes the submitter raise
  \<^verbatim>\<open>InvalidAuth\<close>, not \<^verbatim>\<open>InvalidResponse\<close>: the failed header lookup is a \<^verbatim>\<open>KeyError\<close>
  like the missing \<^verbatim>\<open>code\<close>.
\<close>

theorem generate_code_no_location:
  assumes "send env (credential_post env self sc ex tb) (world n) = (Inr resp, w')"
    and "status resp = 302" and "headers resp ''location'' = None"
  shows "fst (generate_code env self sc ex tb n) = Inl InvalidAuth
       \<and> fst (generate_code env self sc ex tb n) \<noteq> Inl InvalidResponse"
  using assms by (simp add: generate_code_eq request_def location_code_def lookup_def)

text \<open>
  A bare 302.
\<close>

theorem generate_code_no_location_witness:
  "fst (generate_code sim_env (init ''u'' ''p'') ''S'' ''E'' ''T''
          (sim_net 0 [redirect_response 302 None] [])) = Inl InvalidAuth"
proof -
  have st: "status (redirect_response 302 None) = 302"
    and loc: "headers (redirect_response 302 None) ''location'' = None"
    by (simp_all add: redirect_response_def)
  from generate_code_no_location [where self = "init ''u'' ''p''" and sc = "''S''" and ex = "''E''"
          and tb = "''T''" and n = "sim_net 0 [redirect_response 302 None] []", OF sim_send_next st loc]
  show ?thesis by simp
qed

end
